theory Spec2Isabelle
  imports Complex_Main
begin

section \<open>CallShift: the on-call assignment and authentication subsystem\<close>

text \<open>
  A shallow embedding of \<^verbatim>\<open>src/app.py\<close>: the rate limiter \<^verbatim>\<open>rate_limited\<close>, the
  route \<^verbatim>\<open>authenticate\<close>, the assignment function \<^verbatim>\<open>set_on_call_number\<close> and the
  query \<^verbatim>\<open>get_current_oncall\<close>.

  The PostgreSQL tables are lists of rows in scan order. A psycopg2 connection works on
  a private copy of the tables, which \<^verbatim>\<open>conn.commit()\<close> installs; an exception before
  the commit leaves the tables as they were. Every clock reading, every failure of a
  database call and the behaviour of the Telepo provider are inputs of the model.
\<close>

subsection \<open>Data model\<close>

text \<open>
  \<^verbatim>\<open>time.time()\<close> and \<^verbatim>\<open>CURRENT_TIMESTAMP\<close> are read as real numbers of seconds.
\<close>

type_synonym timestamp = real

text \<open>Table \<^verbatim>\<open>users\<close>; the column \<^verbatim>\<open>pin\<close> holds the salted digest.\<close>

record user =
  u_id :: nat
  u_pin :: string
  u_phone :: string
  u_name :: "string option"
  u_email :: "string option"
  u_division :: string
  u_created_at :: timestamp
  u_last_login :: "timestamp option"

text \<open>
  Table \<^verbatim>\<open>on_call\<close>. The serial \<^verbatim>\<open>id\<close> columns of \<^verbatim>\<open>on_call\<close> and \<^verbatim>\<open>audit_log\<close>
  are never read by the operations below; the position in the list stands for them.
\<close>

record on_call_row =
  o_phone :: string
  o_user_id :: "nat option"
  o_division :: string
  o_start_time :: timestamp
  o_end_time :: "timestamp option"

text \<open>Table \<^verbatim>\<open>audit_log\<close>.\<close>

record audit_row =
  a_event_type :: string
  a_user_id :: "nat option"
  a_details :: string
  a_ip_address :: string
  a_timestamp :: timestamp

record database =
  users :: "user list"
  on_call :: "on_call_row list"
  audit_log :: "audit_row list"

text \<open>The process state: the database and the dict \<^verbatim>\<open>ip_request_counter\<close>.\<close>

record system =
  db :: database
  ip_request_counter :: "string \<rightharpoonup> timestamp list"

text \<open>The form fields of a request and its \<^verbatim>\<open>request.remote_addr\<close>.\<close>

record request =
  form_pin :: "string option"
  form_caller_id :: "string option"
  remote_addr :: string

text \<open>
  A failure of a database call: \<open>RaisesAt k msg\<close> makes the \<open>k\<close>-th database call of a
  function (counted from 0, \<^verbatim>\<open>get_db_connection()\<close> first) raise an exception whose
  \<^verbatim>\<open>str\<close> is \<open>msg\<close>: the server is unreachable, the connection is lost, a constraint
  (the foreign keys on \<^verbatim>\<open>user_id\<close>) is violated. At most one call of a function fails,
  since the first exception ends its \<^verbatim>\<open>try\<close> block.
\<close>

datatype db_fault = NoFault | RaisesAt nat string

fun raises_at :: "db_fault \<Rightarrow> nat \<Rightarrow> string option" where
  "raises_at NoFault i = None"
| "raises_at (RaisesAt k msg) i = (if k = i then Some msg else None)"

text \<open>
  What the Telepo provider does with the request: it replies with a status code and a
  JSON body, replies with a body that \<^verbatim>\<open>response.json()\<close> cannot parse (the exception's
  text is kept), cannot be reached (\<^verbatim>\<open>requests.post\<close> raises), or accepts the connection
  and never answers.
\<close>

datatype provider =
    Replies nat string
  | RepliesNonJson nat string
  | Unreachable string
  | Stalls

text \<open>The dict returned by \<^verbatim>\<open>set_on_call_number\<close>.\<close>

datatype telepo_result = TelepoSuccess string | TelepoError string

text \<open>
  A JSON response of the \<^verbatim>\<open>/authenticate\<close> route: the HTTP status code, the fields
  \<^verbatim>\<open>status\<close> and \<^verbatim>\<open>message\<close>, and \<^verbatim>\<open>telepo_result\<close> when present.
\<close>

datatype http_response = Response nat string string "telepo_result option"

text \<open>The clock readings, failures and provider behaviour met by one request.\<close>

record env =
  time_time :: timestamp
  auth_timestamp :: timestamp
  auth_fault :: db_fault
  assign_timestamp :: timestamp
  assign_fault :: db_fault
  telepo :: provider

subsection \<open>Rate limiting\<close>

definition RATE_LIMIT :: nat where
  "RATE_LIMIT = 5"

definition RATE_PERIOD :: real where
  "RATE_PERIOD = 60"

text \<open>The list stored for an address, empty when the address is not a key.\<close>

definition recorded :: "(string \<rightharpoonup> timestamp list) \<Rightarrow> string \<Rightarrow> timestamp list" where
  "recorded c ip = (case c ip of None \<Rightarrow> [] | Some ts \<Rightarrow> ts)"

text \<open>The list comprehension of \<^verbatim>\<open>rate_limited\<close>.\<close>

definition prune :: "timestamp \<Rightarrow> timestamp list \<Rightarrow> timestamp list" where
  "prune current_time ts = filter (\<lambda>t. current_time - t < RATE_PERIOD) ts"

text \<open>
  The decorator. The handler \<open>f\<close> runs on the state in which the timestamp has been
  appended; a handler that never returns gives \<open>None\<close>.
\<close>

definition rate_limited ::
  "(request \<Rightarrow> env \<Rightarrow> system \<Rightarrow> http_response option \<times> system) \<Rightarrow>
   request \<Rightarrow> env \<Rightarrow> system \<Rightarrow> http_response option \<times> system" where
  "rate_limited f req e s =
    (let ip = remote_addr req;
         current_time = time_time e;
         c0 = ip_request_counter s;
         c1 = (if c0 ip = None then c0(ip \<mapsto> []) else c0);
         c2 = c1(ip \<mapsto> prune current_time (recorded c1 ip))
     in if length (recorded c2 ip) \<ge> RATE_LIMIT
        then (Some (Response 429 ''error'' ''Rate limit exceeded'' None),
              s\<lparr>ip_request_counter := c2\<rparr>)
        else f req e (s\<lparr>ip_request_counter := c2(ip \<mapsto> recorded c2 ip @ [current_time])\<rparr>))"

subsection \<open>PIN digests\<close>

text \<open>
  \<^verbatim>\<open>hashlib.sha256(...).hexdigest()\<close> and the environment variable \<^verbatim>\<open>PIN_SALT\<close> are
  parameters of the model.
\<close>

record config =
  sha256_hexdigest :: "string \<Rightarrow> string"
  PIN_SALT :: string

definition hash_pin :: "config \<Rightarrow> string \<Rightarrow> string" where
  "hash_pin cfg pin = sha256_hexdigest cfg (pin @ PIN_SALT cfg)"

subsection \<open>SQL statements\<close>

text \<open>\<^verbatim>\<open>SELECT id, phone, name, division FROM users WHERE pin = %s\<close>, then \<^verbatim>\<open>fetchone()\<close>.\<close>

definition find_user_by_pin :: "string \<Rightarrow> database \<Rightarrow> user option" where
  "find_user_by_pin hashed d = find (\<lambda>u. u_pin u = hashed) (users d)"

text \<open>\<^verbatim>\<open>UPDATE users SET last_login = CURRENT_TIMESTAMP WHERE id = %s\<close>\<close>

definition update_last_login :: "nat \<Rightarrow> timestamp \<Rightarrow> database \<Rightarrow> database" where
  "update_last_login user_id now d =
    d\<lparr>users := map (\<lambda>u. if u_id u = user_id then u\<lparr>u_last_login := Some now\<rparr> else u) (users d)\<rparr>"

text \<open>\<^verbatim>\<open>INSERT INTO audit_log (event_type, user_id, details, ip_address) VALUES (...)\<close>\<close>

definition insert_audit ::
  "string \<Rightarrow> nat option \<Rightarrow> string \<Rightarrow> string \<Rightarrow> timestamp \<Rightarrow> database \<Rightarrow> database" where
  "insert_audit event_type user_id details ip_address now d =
    d\<lparr>audit_log := audit_log d @
      [\<lparr>a_event_type = event_type, a_user_id = user_id, a_details = details,
        a_ip_address = ip_address, a_timestamp = now\<rparr>]\<rparr>"

text \<open>
  \<^verbatim>\<open>UPDATE on_call SET end_time = CURRENT_TIMESTAMP WHERE end_time IS NULL AND division = %s\<close>
\<close>

definition archive_on_call :: "string \<Rightarrow> timestamp \<Rightarrow> database \<Rightarrow> database" where
  "archive_on_call division now d =
    d\<lparr>on_call := map (\<lambda>r. if o_end_time r = None \<and> o_division r = division
                              then r\<lparr>o_end_time := Some now\<rparr> else r) (on_call d)\<rparr>"

text \<open>\<^verbatim>\<open>INSERT INTO on_call (phone, user_id, division) VALUES (%s, %s, %s)\<close>\<close>

definition insert_on_call :: "string \<Rightarrow> nat \<Rightarrow> string \<Rightarrow> timestamp \<Rightarrow> database \<Rightarrow> database" where
  "insert_on_call phone_number user_id division now d =
    d\<lparr>on_call := on_call d @
      [\<lparr>o_phone = phone_number, o_user_id = Some user_id, o_division = division,
        o_start_time = now, o_end_time = None\<rparr>]\<rparr>"

subsection \<open>The Telepo push\<close>

text \<open>
  \<^verbatim>\<open>requests.post\<close> as the library documents it: without a \<^verbatim>\<open>timeout\<close> argument the
  call waits for the reply as long as it takes, so it never returns (\<open>None\<close>) when the
  provider never answers; with one it raises after that many seconds. A raised exception
  is \<open>Inl\<close> of its text, a reply is \<open>Inr\<close> of the status code and of what
  \<^verbatim>\<open>response.json()\<close> gives (\<open>Inl\<close> when it raises).
\<close>

fun requests_post :: "nat option \<Rightarrow> provider \<Rightarrow> (string + nat \<times> (string + string)) option" where
  "requests_post timeout (Replies code body) = Some (Inr (code, Inr body))"
| "requests_post timeout (RepliesNonJson code err) = Some (Inr (code, Inl err))"
| "requests_post timeout (Unreachable err) = Some (Inl err)"
| "requests_post None Stalls = None"
| "requests_post (Some secs) Stalls = Some (Inl ''Read timed out.'')"

text \<open>
  The inner \<^verbatim>\<open>try\<close> of \<^verbatim>\<open>set_on_call_number\<close>: the call
  \<^verbatim>\<open>requests.post(api_url, json=payload, headers=headers)\<close> passes no timeout.
\<close>

definition push_to_telepo :: "provider \<Rightarrow> telepo_result option" where
  "push_to_telepo p =
    (case requests_post None p of
       None \<Rightarrow> None
     | Some (Inl api_err) \<Rightarrow> Some (TelepoError api_err)
     | Some (Inr (code, Inl api_err)) \<Rightarrow> Some (TelepoError api_err)
     | Some (Inr (code, Inr response_data)) \<Rightarrow>
         if code \<noteq> 200 then Some (TelepoError ''API update failed'')
         else Some (TelepoSuccess response_data))"

subsection \<open>\<^verbatim>\<open>set_on_call_number\<close>\<close>

text \<open>
  The database part: calls 0 (connect), 1 to 3 (the three statements, building the
  working copies \<open>w1\<close>, \<open>w2\<close>, \<open>w3\<close>), 4 (commit) and 5 (close). The result is the
  text of the exception raised, if any, and the tables as they are afterwards.
\<close>

definition on_call_update_details :: "string \<Rightarrow> string \<Rightarrow> string" where
  "on_call_update_details phone_number division =
    ''New on-call: '' @ phone_number @ '' (division='' @ division @ '')''"

definition assign_transaction ::
  "string \<Rightarrow> nat \<Rightarrow> string \<Rightarrow> string \<Rightarrow> timestamp \<Rightarrow> db_fault \<Rightarrow> database \<Rightarrow>
   string option \<times> database" where
  "assign_transaction phone_number user_id division ip_address now fault d =
    (let w1 = archive_on_call division now d;
         w2 = insert_on_call phone_number user_id division now w1;
         w3 = insert_audit ''on_call_update'' (Some user_id)
                (on_call_update_details phone_number division) ip_address now w2
     in case raises_at fault 0 of Some e \<Rightarrow> (Some e, d) | None \<Rightarrow>
       (case raises_at fault 1 of Some e \<Rightarrow> (Some e, d) | None \<Rightarrow>
       (case raises_at fault 2 of Some e \<Rightarrow> (Some e, d) | None \<Rightarrow>
       (case raises_at fault 3 of Some e \<Rightarrow> (Some e, d) | None \<Rightarrow>
       (case raises_at fault 4 of Some e \<Rightarrow> (Some e, d) | None \<Rightarrow>
       (case raises_at fault 5 of Some e \<Rightarrow> (Some e, w3) | None \<Rightarrow>
          (None, w3)))))))"

text \<open>The whole function: the dict it returns (\<open>None\<close> when it never returns) and the tables.\<close>

definition set_on_call_number ::
  "string \<Rightarrow> nat \<Rightarrow> string \<Rightarrow> string \<Rightarrow> timestamp \<Rightarrow> db_fault \<Rightarrow> provider \<Rightarrow> database \<Rightarrow>
   telepo_result option \<times> database" where
  "set_on_call_number phone_number user_id division ip_address now fault p d =
    (case assign_transaction phone_number user_id division ip_address now fault d of
       (Some db_err, d') \<Rightarrow> (Some (TelepoError db_err), d')
     | (None, d') \<Rightarrow> (push_to_telepo p, d'))"

subsection \<open>\<^verbatim>\<open>authenticate\<close>\<close>

definition caller_details :: "string \<Rightarrow> string" where
  "caller_details caller_id = ''Caller ID: '' @ caller_id"

definition success_message :: "string \<Rightarrow> string \<Rightarrow> string" where
  "success_message phone_number user_division =
    ''On-call number updated to '' @ phone_number @ '' (division: '' @ user_division @ '')''"

text \<open>
  The branch taken when \<^verbatim>\<open>fetchone()\<close> gives no row: calls 2 (insert), 3 (commit),
  4 (close).
\<close>

definition auth_no_user :: "string \<Rightarrow> string \<Rightarrow> env \<Rightarrow> system \<Rightarrow> http_response option \<times> system" where
  "auth_no_user caller_id ip_address e s =
    (let d = db s;
         w1 = insert_audit ''failed_auth'' None (caller_details caller_id) ip_address
                (auth_timestamp e) d
     in case raises_at (auth_fault e) 2 of
          Some m \<Rightarrow> (Some (Response 500 ''error'' m None), s)
        | None \<Rightarrow>
       (case raises_at (auth_fault e) 3 of
          Some m \<Rightarrow> (Some (Response 500 ''error'' m None), s)
        | None \<Rightarrow>
       (case raises_at (auth_fault e) 4 of
          Some m \<Rightarrow> (Some (Response 500 ''error'' m None), s\<lparr>db := w1\<rparr>)
        | None \<Rightarrow> (Some (Response 403 ''failure'' ''Invalid PIN'' None), s\<lparr>db := w1\<rparr>))))"

text \<open>
  The branch taken for the row \<open>u\<close>: calls 2 and 3 (update, insert), 4 (commit),
  5 (close), then \<^verbatim>\<open>set_on_call_number\<close> on a connection of its own.
\<close>

definition auth_user :: "user \<Rightarrow> string \<Rightarrow> string \<Rightarrow> env \<Rightarrow> system \<Rightarrow> http_response option \<times> system" where
  "auth_user u caller_id ip_address e s =
    (let d = db s;
         user_id = u_id u;
         phone_number = u_phone u;
         user_division = u_division u;
         w1 = update_last_login user_id (auth_timestamp e) d;
         w2 = insert_audit ''successful_auth'' (Some user_id) (caller_details caller_id)
                ip_address (auth_timestamp e) w1
     in case raises_at (auth_fault e) 2 of
          Some m \<Rightarrow> (Some (Response 500 ''error'' m None), s)
        | None \<Rightarrow>
       (case raises_at (auth_fault e) 3 of
          Some m \<Rightarrow> (Some (Response 500 ''error'' m None), s)
        | None \<Rightarrow>
       (case raises_at (auth_fault e) 4 of
          Some m \<Rightarrow> (Some (Response 500 ''error'' m None), s)
        | None \<Rightarrow>
       (case raises_at (auth_fault e) 5 of
          Some m \<Rightarrow> (Some (Response 500 ''error'' m None), s\<lparr>db := w2\<rparr>)
        | None \<Rightarrow>
       (case set_on_call_number phone_number user_id user_division ip_address
               (assign_timestamp e) (assign_fault e) (telepo e) w2 of
          (None, d') \<Rightarrow> (None, s\<lparr>db := d'\<rparr>)
        | (Some result, d') \<Rightarrow>
            (Some (Response 200 ''success'' (success_message phone_number user_division)
                     (Some result)),
             s\<lparr>db := d'\<rparr>))))))"

text \<open>
  The handler under the decorator. \<^verbatim>\<open>not pin\<close> holds for a missing field and for the
  empty string. Calls 0 (connect) and 1 (select) come first.
\<close>

definition authenticate :: "config \<Rightarrow> request \<Rightarrow> env \<Rightarrow> system \<Rightarrow> http_response option \<times> system" where
  "authenticate cfg req e s =
    (let caller_id = (case form_caller_id req of None \<Rightarrow> ''unknown'' | Some c \<Rightarrow> c);
         ip_address = remote_addr req
     in case form_pin req of
          None \<Rightarrow> (Some (Response 400 ''failure'' ''PIN required'' None), s)
        | Some pin \<Rightarrow>
            if pin = [] then (Some (Response 400 ''failure'' ''PIN required'' None), s)
            else
              (let hashed = hash_pin cfg pin
               in case raises_at (auth_fault e) 0 of
                    Some m \<Rightarrow> (Some (Response 500 ''error'' m None), s)
                  | None \<Rightarrow>
                 (case raises_at (auth_fault e) 1 of
                    Some m \<Rightarrow> (Some (Response 500 ''error'' m None), s)
                  | None \<Rightarrow>
                 (case find_user_by_pin hashed (db s) of
                    None \<Rightarrow> auth_no_user caller_id ip_address e s
                  | Some u \<Rightarrow> auth_user u caller_id ip_address e s))))"

text \<open>The route \<^verbatim>\<open>/authenticate\<close>: the handler wrapped by \<^verbatim>\<open>@rate_limited\<close>.\<close>

definition authenticate_route :: "config \<Rightarrow> request \<Rightarrow> env \<Rightarrow> system \<Rightarrow> http_response option \<times> system" where
  "authenticate_route cfg = rate_limited (authenticate cfg)"

subsection \<open>\<^verbatim>\<open>get_current_oncall\<close>\<close>

text \<open>A row of the query's result.\<close>

record oncall_view =
  v_phone :: string
  v_start_time :: timestamp
  v_name :: "string option"
  v_user_id :: nat
  v_division :: string

datatype oncall_response =
    OnCallFound oncall_view
  | OnCallNotFound string
  | OnCallError string

fun oncall_status_code :: "oncall_response \<Rightarrow> nat" where
  "oncall_status_code (OnCallFound row) = 200"
| "oncall_status_code (OnCallNotFound m) = 404"
| "oncall_status_code (OnCallError m) = 500"

text \<open>The condition \<^verbatim>\<open>end_time IS NULL AND division = %s\<close>: the open rows of a division.\<close>

definition open_rows :: "string \<Rightarrow> database \<Rightarrow> on_call_row list" where
  "open_rows division d =
    filter (\<lambda>r. o_end_time r = None \<and> o_division r = division) (on_call d)"

text \<open>
  \<^verbatim>\<open>FROM on_call o JOIN users u ON o.user_id = u.id WHERE o.end_time IS NULL AND o.division = %s\<close>
\<close>

definition open_rows_joined :: "string \<Rightarrow> database \<Rightarrow> oncall_view list" where
  "open_rows_joined division d =
    concat (map (\<lambda>r.
      map (\<lambda>u. \<lparr>v_phone = o_phone r, v_start_time = o_start_time r, v_name = u_name u,
                v_user_id = u_id u, v_division = o_division r\<rparr>)
          (filter (\<lambda>u. o_user_id r = Some (u_id u)) (users d)))
      (open_rows division d))"

text \<open>
  \<^verbatim>\<open>ORDER BY o.start_time DESC LIMIT 1\<close>: a row with the greatest start time, the first
  in scan order among equals.
\<close>

fun latest :: "oncall_view list \<Rightarrow> oncall_view option" where
  "latest [] = None"
| "latest (r # rs) =
    (case latest rs of
       None \<Rightarrow> Some r
     | Some m \<Rightarrow> if v_start_time r < v_start_time m then Some m else Some r)"

text \<open>Calls 0 (connect), 1 (select), 2 (close). The query changes no table.\<close>

definition get_current_oncall :: "string option \<Rightarrow> db_fault \<Rightarrow> database \<Rightarrow> oncall_response" where
  "get_current_oncall division_arg fault d =
    (let division = (case division_arg of None \<Rightarrow> ''retic_water'' | Some v \<Rightarrow> v)
     in case raises_at fault 0 of Some m \<Rightarrow> OnCallError m | None \<Rightarrow>
       (case raises_at fault 1 of Some m \<Rightarrow> OnCallError m | None \<Rightarrow>
       (case raises_at fault 2 of Some m \<Rightarrow> OnCallError m | None \<Rightarrow>
       (case latest (open_rows_joined division d) of
          Some row \<Rightarrow> OnCallFound row
        | None \<Rightarrow> OnCallNotFound (''No on-call user set for division='' @ division)))))"

subsection \<open>Sequential executions\<close>

text \<open>
  One operation of the system with everything it meets: a request to \<^verbatim>\<open>/authenticate\<close>,
  a direct call of \<^verbatim>\<open>set_on_call_number\<close>, a request to \<^verbatim>\<open>/api/oncall\<close>.
\<close>

datatype event =
    Authenticate config request env
  | Assign string nat string string timestamp db_fault provider
  | Query "string option" db_fault

text \<open>
  The state after an operation. The effects of a call are in the state whether or not
  the call returns.
\<close>

fun step :: "system \<Rightarrow> event \<Rightarrow> system" where
  "step s (Authenticate cfg req e) = snd (authenticate_route cfg req e s)"
| "step s (Assign phone_number user_id division ip_address now fault p) =
    s\<lparr>db := snd (set_on_call_number phone_number user_id division ip_address now fault p (db s))\<rparr>"
| "step s (Query division_arg fault) = s"

definition run :: "system \<Rightarrow> event list \<Rightarrow> system" where
  "run s evs = foldl step s evs"

subsection \<open>The ledger invariant\<close>

text \<open>At most one open row for a division.\<close>

definition one_open :: "string \<Rightarrow> database \<Rightarrow> bool" where
  "one_open division d = (length (open_rows division d) \<le> 1)"

subsection \<open>Concrete inputs\<close>

text \<open>
  The inputs on which the theorems below are exercised: the two users of
  \<^verbatim>\<open>seed_db.py\<close>, with list reversal standing in for SHA-256.
\<close>

definition example_config :: config where
  "example_config = \<lparr>sha256_hexdigest = rev, PIN_SALT = ''default_salt_value''\<rparr>"

definition admin_user :: user where
  "admin_user =
    \<lparr>u_id = 1, u_pin = hash_pin example_config ''1234'', u_phone = ''+15551234567'',
     u_name = Some ''Admin User'', u_email = Some ''admin@example.com'',
     u_division = ''retic_water'', u_created_at = 0, u_last_login = None\<rparr>"

definition support_user :: user where
  "support_user =
    \<lparr>u_id = 2, u_pin = hash_pin example_config ''5678'', u_phone = ''+15559876543'',
     u_name = Some ''Support Team Lead'', u_email = Some ''support@example.com'',
     u_division = ''surface_water'', u_created_at = 0, u_last_login = None\<rparr>"

definition seeded_db :: database where
  "seeded_db = \<lparr>users = [admin_user, support_user], on_call = [], audit_log = []\<rparr>"

definition seeded_system :: system where
  "seeded_system = \<lparr>db = seeded_db, ip_request_counter = Map.empty\<rparr>"

text \<open>A request from the address 10.0.0.7 with the given PIN field.\<close>

definition request_with :: "string option \<Rightarrow> request" where
  "request_with pin = \<lparr>form_pin = pin, form_caller_id = Some ''+15550001111'', remote_addr = ''10.0.0.7''\<rparr>"

text \<open>
  A request that arrives at time \<open>t\<close>, whose transactions start at \<open>t + 1\<close> and \<open>t + 2\<close>,
  meets no database failure and is answered by the provider with status 200.
\<close>

definition quiet_env :: "timestamp \<Rightarrow> env" where
  "quiet_env t =
    \<lparr>time_time = t, auth_timestamp = t + 1, auth_fault = NoFault,
     assign_timestamp = t + 2, assign_fault = NoFault, telepo = Replies 200 ''{}''\<rparr>"

text \<open>Five requests from that address, between the times 10 and 50.\<close>

definition five :: "(request \<times> env) list" where
  "five = [(request_with (Some ''0000''), quiet_env 10), (request_with None, quiet_env 11),
           (request_with (Some ''1234''), quiet_env 12), (request_with (Some ''1''), quiet_env 30),
           (request_with (Some ''0000''), quiet_env 50)]"

text \<open>
  The seeded database with the first user on call for \<open>retic_water\<close> since time 12, and
  a sequence of operations: two authentications, a query and a direct assignment.
\<close>

definition on_duty_db :: database where
  "on_duty_db = seeded_db\<lparr>on_call :=
     [\<lparr>o_phone = ''+15551234567'', o_user_id = Some 1, o_division = ''retic_water'',
       o_start_time = 12, o_end_time = None\<rparr>]\<rparr>"

definition handover :: "event list" where
  "handover =
    [Authenticate example_config (request_with (Some ''1234'')) (quiet_env 10),
     Query None NoFault,
     Assign ''+15551234567'' 1 ''retic_water'' ''10.0.0.9'' 20 NoFault (Unreachable ''Connection refused''),
     Authenticate example_config (request_with (Some ''5678'')) (quiet_env 30)]"

text \<open>
  A second user with the PIN of the first, in another division: the column \<^verbatim>\<open>pin\<close> of
  \<^verbatim>\<open>users\<close> carries no uniqueness constraint.
\<close>

definition colleague :: user where
  "colleague = support_user\<lparr>u_pin := hash_pin example_config ''1234''\<rparr>"

definition shared_pin_system :: system where
  "shared_pin_system =
    \<lparr>db = \<lparr>users = [admin_user, colleague], on_call = [], audit_log = []\<rparr>,
     ip_request_counter = Map.empty\<rparr>"

section \<open>Properties\<close>

subsection \<open>The rate limiter\<close>

lemma recorded_upd [simp]: "recorded (c(ip \<mapsto> ts)) ip = ts"
  by (simp add: recorded_def)

lemma recorded_upd_other [simp]: "ip' \<noteq> ip \<Longrightarrow> recorded (c(ip \<mapsto> ts)) ip' = recorded c ip'"
  by (simp add: recorded_def)

lemma rate_limited_rejects:
  "RATE_LIMIT \<le> length (prune (time_time e) (recorded (ip_request_counter s) (remote_addr req))) \<Longrightarrow>
   rate_limited f req e s =
     (Some (Response 429 ''error'' ''Rate limit exceeded'' None),
      s\<lparr>ip_request_counter := (ip_request_counter s)(remote_addr req \<mapsto>
          prune (time_time e) (recorded (ip_request_counter s) (remote_addr req)))\<rparr>)"
  by (auto simp: rate_limited_def Let_def recorded_def prune_def)

lemma rate_limited_admits:
  "length (prune (time_time e) (recorded (ip_request_counter s) (remote_addr req))) < RATE_LIMIT \<Longrightarrow>
   rate_limited f req e s =
     f req e (s\<lparr>ip_request_counter := (ip_request_counter s)(remote_addr req \<mapsto>
          prune (time_time e) (recorded (ip_request_counter s) (remote_addr req)) @ [time_time e])\<rparr>)"
  by (auto simp: rate_limited_def Let_def recorded_def prune_def)

lemma prune_all: "length ts \<le> length (prune now ts) \<Longrightarrow> prune now ts = ts"
  unfolding prune_def
  by (metis length_filter_le le_antisym filter_id_conv length_filter_less linorder_not_le)

lemma auth_no_user_counter:
  "ip_request_counter (snd (auth_no_user cid ip e s)) = ip_request_counter s"
  by (simp add: auth_no_user_def Let_def split: option.splits)

lemma auth_user_counter:
  "ip_request_counter (snd (auth_user u cid ip e s)) = ip_request_counter s"
  by (simp add: auth_user_def Let_def split: option.splits prod.splits)

lemma authenticate_counter:
  "ip_request_counter (snd (authenticate cfg req e s)) = ip_request_counter s"
  by (simp add: authenticate_def Let_def auth_no_user_counter auth_user_counter split: option.splits)

lemma route_counter_admitted:
  "length (prune (time_time e) (recorded (ip_request_counter s) (remote_addr req))) < RATE_LIMIT \<Longrightarrow>
   ip_request_counter (snd (authenticate_route cfg req e s)) =
     (ip_request_counter s)(remote_addr req \<mapsto>
          prune (time_time e) (recorded (ip_request_counter s) (remote_addr req)) @ [time_time e])"
  by (simp add: authenticate_route_def rate_limited_admits authenticate_counter)

lemma prune_fresh: "\<forall>x\<in>set ts. now - x < RATE_PERIOD \<Longrightarrow> prune now ts = ts"
  by (simp add: prune_def)

lemma run_Cons [simp]: "run s (ev # evs) = run (step s ev) evs"
  by (simp add: run_def)

lemma run_Nil [simp]: "run s [] = s"
  by (simp add: run_def)

lemma run_fresh_address:
  "\<forall>p\<in>set rs. remote_addr (fst p) = ip \<Longrightarrow>
   length (recorded (ip_request_counter s) ip) + length rs \<le> RATE_LIMIT \<Longrightarrow>
   \<forall>x \<in> set (recorded (ip_request_counter s) ip) \<union> set (map (\<lambda>p. time_time (snd p)) rs).
     \<forall>p\<in>set rs. time_time (snd p) - x < RATE_PERIOD \<Longrightarrow>
   recorded (ip_request_counter (run s (map (\<lambda>p. Authenticate cfg (fst p) (snd p)) rs))) ip =
     recorded (ip_request_counter s) ip @ map (\<lambda>p. time_time (snd p)) rs"
proof (induction rs arbitrary: s)
  case Nil
  then show ?case by simp
next
  case (Cons p rs)
  let ?ts = "recorded (ip_request_counter s) ip"
  let ?s' = "step s (Authenticate cfg (fst p) (snd p))"
  have ip: "remote_addr (fst p) = ip" using Cons.prems(1) by simp
  have fresh: "prune (time_time (snd p)) ?ts = ?ts"
    using Cons.prems(3) by (intro prune_fresh) simp
  have lt: "length ?ts < RATE_LIMIT" using Cons.prems(2) by simp
  have rec: "recorded (ip_request_counter ?s') ip = ?ts @ [time_time (snd p)]"
    using route_counter_admitted [of "snd p" s "fst p" cfg] fresh lt ip by simp
  have "recorded (ip_request_counter (run ?s' (map (\<lambda>p. Authenticate cfg (fst p) (snd p)) rs))) ip =
     recorded (ip_request_counter ?s') ip @ map (\<lambda>p. time_time (snd p)) rs"
  proof (rule Cons.IH)
    show "\<forall>p\<in>set rs. remote_addr (fst p) = ip" using Cons.prems(1) by simp
    show "length (recorded (ip_request_counter ?s') ip) + length rs \<le> RATE_LIMIT"
      using Cons.prems(2) rec by simp
    show "\<forall>x \<in> set (recorded (ip_request_counter ?s') ip) \<union> set (map (\<lambda>p. time_time (snd p)) rs).
     \<forall>p\<in>set rs. time_time (snd p) - x < RATE_PERIOD"
      using Cons.prems(3) rec by auto
  qed
  then show ?case using rec by simp
qed

lemma rejected_state_unchanged:
  assumes "RATE_LIMIT \<le> length (prune (time_time e) (recorded (ip_request_counter s) (remote_addr req)))"
      and "length (recorded (ip_request_counter s) (remote_addr req)) \<le> RATE_LIMIT"
  shows "rate_limited f req e s = (Some (Response 429 ''error'' ''Rate limit exceeded'' None), s)"
proof -
  let ?ts = "recorded (ip_request_counter s) (remote_addr req)"
  have all: "prune (time_time e) ?ts = ?ts"
    using assms by (intro prune_all) simp
  have "?ts \<noteq> []" using assms(1) all by (auto simp: RATE_LIMIT_def)
  then have "ip_request_counter s (remote_addr req) = Some ?ts"
    by (auto simp: recorded_def split: option.splits)
  then have "(ip_request_counter s)(remote_addr req \<mapsto> ?ts) = ip_request_counter s"
    by (simp add: fun_upd_idem)
  then show ?thesis
    using rate_limited_rejects [OF assms(1), of f] all by simp
qed

lemma sixth_attempt_rejected:
  assumes len: "length rs = RATE_LIMIT"
      and ips: "\<forall>p\<in>set rs. remote_addr (fst p) = remote_addr req6"
      and fresh: "recorded (ip_request_counter s0) (remote_addr req6) = []"
      and window: "\<forall>x \<in> set (map (\<lambda>p. time_time (snd p)) rs) \<union> {time_time e6}.
                   \<forall>y \<in> set (map (\<lambda>p. time_time (snd p)) rs) \<union> {time_time e6}. y - x < RATE_PERIOD"
  shows "authenticate_route cfg req6 e6 (run s0 (map (\<lambda>p. Authenticate cfg (fst p) (snd p)) rs)) =
         (Some (Response 429 ''error'' ''Rate limit exceeded'' None),
          run s0 (map (\<lambda>p. Authenticate cfg (fst p) (snd p)) rs))"
proof -
  let ?s5 = "run s0 (map (\<lambda>p. Authenticate cfg (fst p) (snd p)) rs)"
  have rec: "recorded (ip_request_counter ?s5) (remote_addr req6) = map (\<lambda>p. time_time (snd p)) rs"
    using run_fresh_address [of rs "remote_addr req6" s0 cfg] len ips fresh window by auto
  have "prune (time_time e6) (map (\<lambda>p. time_time (snd p)) rs) = map (\<lambda>p. time_time (snd p)) rs"
    using window by (intro prune_fresh) auto
  then show ?thesis
    unfolding authenticate_route_def
    using rec len by (intro rejected_state_unchanged) simp_all
qed

text \<open>
  Claim C6. On every call of the admission check at time \<open>now\<close> for an address, with
  \<open>RATE_LIMIT = 5\<close> and \<open>RATE_PERIOD = 60\<close>: an entry \<open>t\<close> of the record is kept exactly
  when \<open>now - t < 60\<close>, so every entry older than \<open>now - 60\<close> is discarded; if at least 5
  entries remain, the request is rejected with status 429 and the record is the pruned
  list, without \<open>now\<close>; otherwise \<open>now\<close> is appended to the pruned list and the handler
  runs. Consequently, after five requests from an address with no recorded entry, a
  sixth request from it, all six within one window, is rejected and changes nothing.
\<close>

theorem rate_limited_admission:
  "RATE_LIMIT = 5 \<and> RATE_PERIOD = 60 \<and>
   (\<forall>t\<in>set (recorded (ip_request_counter s) (remote_addr req)).
      t \<in> set (prune (time_time e) (recorded (ip_request_counter s) (remote_addr req)))
        \<longleftrightarrow> time_time e - t < RATE_PERIOD) \<and>
   (\<forall>t\<in>set (recorded (ip_request_counter s) (remote_addr req)).
      t < time_time e - RATE_PERIOD \<longrightarrow>
      t \<notin> set (prune (time_time e) (recorded (ip_request_counter s) (remote_addr req)))) \<and>
   (RATE_LIMIT \<le> length (prune (time_time e) (recorded (ip_request_counter s) (remote_addr req))) \<longrightarrow>
      rate_limited f req e s =
        (Some (Response 429 ''error'' ''Rate limit exceeded'' None),
         s\<lparr>ip_request_counter := (ip_request_counter s)(remote_addr req \<mapsto>
            prune (time_time e) (recorded (ip_request_counter s) (remote_addr req)))\<rparr>)) \<and>
   (length (prune (time_time e) (recorded (ip_request_counter s) (remote_addr req))) < RATE_LIMIT \<longrightarrow>
      rate_limited f req e s =
        f req e (s\<lparr>ip_request_counter := (ip_request_counter s)(remote_addr req \<mapsto>
            prune (time_time e) (recorded (ip_request_counter s) (remote_addr req)) @ [time_time e])\<rparr>)) \<and>
   (length rs = RATE_LIMIT \<and>
    (\<forall>p\<in>set rs. remote_addr (fst p) = remote_addr req6) \<and>
    recorded (ip_request_counter s0) (remote_addr req6) = [] \<and>
    (\<forall>x \<in> set (map (\<lambda>p. time_time (snd p)) rs) \<union> {time_time e6}.
     \<forall>y \<in> set (map (\<lambda>p. time_time (snd p)) rs) \<union> {time_time e6}. y - x < RATE_PERIOD) \<longrightarrow>
    authenticate_route cfg req6 e6 (run s0 (map (\<lambda>p. Authenticate cfg (fst p) (snd p)) rs)) =
      (Some (Response 429 ''error'' ''Rate limit exceeded'' None),
       run s0 (map (\<lambda>p. Authenticate cfg (fst p) (snd p)) rs)))"
proof (intro conjI impI)
  show "RATE_LIMIT = 5" by (simp add: RATE_LIMIT_def)
  show "RATE_PERIOD = 60" by (simp add: RATE_PERIOD_def)
  show "\<forall>t\<in>set (recorded (ip_request_counter s) (remote_addr req)).
      t \<in> set (prune (time_time e) (recorded (ip_request_counter s) (remote_addr req)))
        \<longleftrightarrow> time_time e - t < RATE_PERIOD"
    by (simp add: prune_def)
  show "\<forall>t\<in>set (recorded (ip_request_counter s) (remote_addr req)).
      t < time_time e - RATE_PERIOD \<longrightarrow>
      t \<notin> set (prune (time_time e) (recorded (ip_request_counter s) (remote_addr req)))"
    by (auto simp: prune_def)
next
  assume "RATE_LIMIT \<le> length (prune (time_time e) (recorded (ip_request_counter s) (remote_addr req)))"
  then show "rate_limited f req e s =
        (Some (Response 429 ''error'' ''Rate limit exceeded'' None),
         s\<lparr>ip_request_counter := (ip_request_counter s)(remote_addr req \<mapsto>
            prune (time_time e) (recorded (ip_request_counter s) (remote_addr req)))\<rparr>)"
    by (rule rate_limited_rejects)
next
  assume "length (prune (time_time e) (recorded (ip_request_counter s) (remote_addr req))) < RATE_LIMIT"
  then show "rate_limited f req e s =
        f req e (s\<lparr>ip_request_counter := (ip_request_counter s)(remote_addr req \<mapsto>
            prune (time_time e) (recorded (ip_request_counter s) (remote_addr req)) @ [time_time e])\<rparr>)"
    by (rule rate_limited_admits)
next
  assume h: "length rs = RATE_LIMIT \<and>
    (\<forall>p\<in>set rs. remote_addr (fst p) = remote_addr req6) \<and>
    recorded (ip_request_counter s0) (remote_addr req6) = [] \<and>
    (\<forall>x \<in> set (map (\<lambda>p. time_time (snd p)) rs) \<union> {time_time e6}.
     \<forall>y \<in> set (map (\<lambda>p. time_time (snd p)) rs) \<union> {time_time e6}. y - x < RATE_PERIOD)"
  show "authenticate_route cfg req6 e6 (run s0 (map (\<lambda>p. Authenticate cfg (fst p) (snd p)) rs)) =
      (Some (Response 429 ''error'' ''Rate limit exceeded'' None),
       run s0 (map (\<lambda>p. Authenticate cfg (fst p) (snd p)) rs))"
    using h by (intro sixth_attempt_rejected) blast+
qed

theorem rate_limited_admission_witness:
  "(RATE_LIMIT \<le> length (prune (time_time (quiet_env 10))
       (recorded (ip_request_counter (seeded_system\<lparr>ip_request_counter := [''10.0.0.7'' \<mapsto> [1,2,3,4,5]]\<rparr>))
          (remote_addr (request_with None)))) \<and>
    rate_limited (authenticate example_config) (request_with None) (quiet_env 10)
       (seeded_system\<lparr>ip_request_counter := [''10.0.0.7'' \<mapsto> [1,2,3,4,5]]\<rparr>) =
      (Some (Response 429 ''error'' ''Rate limit exceeded'' None),
       seeded_system\<lparr>ip_request_counter := [''10.0.0.7'' \<mapsto> [1,2,3,4,5]]\<rparr>)) \<and>
   (length five = RATE_LIMIT \<and>
    map (\<lambda>p. remote_addr (fst p)) five = replicate 5 (remote_addr (request_with (Some ''1234''))) \<and>
    recorded (ip_request_counter seeded_system) (remote_addr (request_with (Some ''1234''))) = [] \<and>
    map (\<lambda>p. time_time (snd p)) five = [10, 11, 12, 30, 50] \<and>
    time_time (quiet_env 69) = 69 \<and>
    authenticate_route example_config (request_with (Some ''1234'')) (quiet_env 69)
        (run seeded_system (map (\<lambda>p. Authenticate example_config (fst p) (snd p)) five)) =
      (Some (Response 429 ''error'' ''Rate limit exceeded'' None),
       run seeded_system (map (\<lambda>p. Authenticate example_config (fst p) (snd p)) five)))"
proof -
  let ?s = "seeded_system\<lparr>ip_request_counter := [''10.0.0.7'' \<mapsto> [1,2,3,4,5]]\<rparr>"
  have h1: "RATE_LIMIT \<le> length (prune (time_time (quiet_env 10))
       (recorded (ip_request_counter ?s) (remote_addr (request_with None))))"
    by (simp add: RATE_LIMIT_def RATE_PERIOD_def prune_def recorded_def quiet_env_def request_with_def)
  have e1: "(ip_request_counter ?s)(remote_addr (request_with None) \<mapsto>
            prune (time_time (quiet_env 10)) (recorded (ip_request_counter ?s) (remote_addr (request_with None))))
         = [''10.0.0.7'' \<mapsto> [1,2,3,4,5]]"
    by (simp add: RATE_PERIOD_def prune_def recorded_def quiet_env_def request_with_def)
  have h2: "length five = RATE_LIMIT \<and>
    (\<forall>p\<in>set five. remote_addr (fst p) = remote_addr (request_with (Some ''1234''))) \<and>
    recorded (ip_request_counter seeded_system) (remote_addr (request_with (Some ''1234''))) = [] \<and>
    (\<forall>x \<in> set (map (\<lambda>p. time_time (snd p)) five) \<union> {time_time (quiet_env 69)}.
     \<forall>y \<in> set (map (\<lambda>p. time_time (snd p)) five) \<union> {time_time (quiet_env 69)}. y - x < RATE_PERIOD)"
    by (simp add: five_def RATE_LIMIT_def RATE_PERIOD_def recorded_def quiet_env_def request_with_def seeded_system_def)
  note t = rate_limited_admission [where s = ?s and req = "request_with None" and e = "quiet_env 10"
      and f = "authenticate example_config" and rs = five and ?req6.0 = "request_with (Some ''1234'')"
      and ?s0.0 = seeded_system and ?e6.0 = "quiet_env 69" and cfg = example_config]
  from t h1 have c1: "rate_limited (authenticate example_config) (request_with None) (quiet_env 10) ?s =
      (Some (Response 429 ''error'' ''Rate limit exceeded'' None),
       ?s\<lparr>ip_request_counter := (ip_request_counter ?s)(remote_addr (request_with None) \<mapsto>
            prune (time_time (quiet_env 10)) (recorded (ip_request_counter ?s) (remote_addr (request_with None))))\<rparr>)"
    by blast
  from t h2 have c2: "authenticate_route example_config (request_with (Some ''1234'')) (quiet_env 69)
        (run seeded_system (map (\<lambda>p. Authenticate example_config (fst p) (snd p)) five)) =
      (Some (Response 429 ''error'' ''Rate limit exceeded'' None),
       run seeded_system (map (\<lambda>p. Authenticate example_config (fst p) (snd p)) five))"
    by blast
  have h3: "length five = RATE_LIMIT \<and>
    map (\<lambda>p. remote_addr (fst p)) five = replicate 5 (remote_addr (request_with (Some ''1234''))) \<and>
    recorded (ip_request_counter seeded_system) (remote_addr (request_with (Some ''1234''))) = [] \<and>
    map (\<lambda>p. time_time (snd p)) five = [10, 11, 12, 30, 50] \<and>
    time_time (quiet_env 69) = 69"
    by (simp add: five_def RATE_LIMIT_def recorded_def quiet_env_def request_with_def
          seeded_system_def numeral_eq_Suc)
  show ?thesis using h1 h3 c1 c2 unfolding e1 by simp
qed

subsection \<open>The handler on a missing PIN and on a failed lookup\<close>

lemma auth_no_user_on_call:
  "on_call (db (snd (auth_no_user cid ip e s))) = on_call (db s)"
  by (simp add: auth_no_user_def Let_def insert_audit_def split: option.splits)

lemma authenticate_missing_pin:
  "form_pin req = None \<or> form_pin req = Some [] \<Longrightarrow>
   authenticate cfg req e s = (Some (Response 400 ''failure'' ''PIN required'' None), s)"
  by (auto simp: authenticate_def Let_def)

lemma find_user_none:
  "\<forall>u\<in>set (users d). u_pin u \<noteq> hashed \<Longrightarrow> find_user_by_pin hashed d = None"
  by (simp add: find_user_by_pin_def find_None_iff)

lemma authenticate_no_match:
  assumes "form_pin req = Some pin" "pin \<noteq> []"
      and "\<forall>u\<in>set (users (db s)). u_pin u \<noteq> hash_pin cfg pin"
  shows "authenticate cfg req e s =
    (case raises_at (auth_fault e) 0 of
        Some m \<Rightarrow> (Some (Response 500 ''error'' m None), s)
      | None \<Rightarrow>
     (case raises_at (auth_fault e) 1 of
        Some m \<Rightarrow> (Some (Response 500 ''error'' m None), s)
      | None \<Rightarrow> auth_no_user (case form_caller_id req of None \<Rightarrow> ''unknown'' | Some c \<Rightarrow> c)
           (remote_addr req) e s))"
  using assms by (simp add: authenticate_def Let_def find_user_none split: option.splits)

lemma authenticate_no_match_response:
  assumes "form_pin req = Some pin" and "pin \<noteq> []"
      and "\<forall>u\<in>set (users (db s)). u_pin u \<noteq> hash_pin cfg pin"
      and "auth_fault e = NoFault"
  shows "fst (authenticate cfg req e s) = Some (Response 403 ''failure'' ''Invalid PIN'' None)"
  unfolding authenticate_no_match [OF assms(1-3)]
  using assms(4) by (simp add: auth_no_user_def Let_def)

text \<open>
  Claim C8. For every authentication attempt whose PIN digest equals the stored digest
  of no user, the handler leaves the table \<open>on_call\<close> as it is (no row is created and
  none is closed, whatever the database does); when no database call fails, it appends
  exactly one row to \<open>audit_log\<close>, of kind \<open>failed_auth\<close>, and answers with status 403
  and the fixed message \<open>Invalid PIN\<close>, which depends neither on the PIN nor on the
  stored users.
\<close>

theorem failed_auth_effects:
  assumes "form_pin req = Some pin" and "pin \<noteq> []"
      and "\<forall>u\<in>set (users (db s)). u_pin u \<noteq> hash_pin cfg pin"
  shows "on_call (db (snd (authenticate cfg req e s))) = on_call (db s) \<and>
         (auth_fault e = NoFault \<longrightarrow>
            authenticate cfg req e s =
              (Some (Response 403 ''failure'' ''Invalid PIN'' None),
               s\<lparr>db := (db s)\<lparr>audit_log := audit_log (db s) @
                  [\<lparr>a_event_type = ''failed_auth'', a_user_id = None,
                    a_details = ''Caller ID: '' @
                      (case form_caller_id req of None \<Rightarrow> ''unknown'' | Some c \<Rightarrow> c),
                    a_ip_address = remote_addr req, a_timestamp = auth_timestamp e\<rparr>]\<rparr>\<rparr>))"
proof (intro conjI impI)
  show "on_call (db (snd (authenticate cfg req e s))) = on_call (db s)"
    unfolding authenticate_no_match [OF assms]
    by (simp add: auth_no_user_on_call split: option.splits)
next
  assume "auth_fault e = NoFault"
  then show "authenticate cfg req e s =
              (Some (Response 403 ''failure'' ''Invalid PIN'' None),
               s\<lparr>db := (db s)\<lparr>audit_log := audit_log (db s) @
                  [\<lparr>a_event_type = ''failed_auth'', a_user_id = None,
                    a_details = ''Caller ID: '' @
                      (case form_caller_id req of None \<Rightarrow> ''unknown'' | Some c \<Rightarrow> c),
                    a_ip_address = remote_addr req, a_timestamp = auth_timestamp e\<rparr>]\<rparr>\<rparr>)"
    unfolding authenticate_no_match [OF assms]
    by (simp add: auth_no_user_def Let_def insert_audit_def caller_details_def)
qed

lemma route_db_missing_pin:
  "form_pin req = None \<or> form_pin req = Some [] \<Longrightarrow>
   db (snd (authenticate_route cfg req e s)) = db s"
  by (simp add: authenticate_route_def rate_limited_def Let_def authenticate_missing_pin)

theorem failed_auth_effects_witness:
  "form_pin (request_with (Some ''0000'')) = Some ''0000'' \<and>
   list_all (\<lambda>u. u_pin u \<noteq> hash_pin example_config ''0000'') (users (db seeded_system)) \<and>
   auth_fault (quiet_env 10) = NoFault \<and>
   authenticate example_config (request_with (Some ''0000'')) (quiet_env 10) seeded_system =
     (Some (Response 403 ''failure'' ''Invalid PIN'' None),
      seeded_system\<lparr>db := seeded_db\<lparr>audit_log :=
        [\<lparr>a_event_type = ''failed_auth'', a_user_id = None,
          a_details = ''Caller ID: +15550001111'', a_ip_address = ''10.0.0.7'',
          a_timestamp = 11\<rparr>]\<rparr>\<rparr>)"
proof -
  have h1: "form_pin (request_with (Some ''0000'')) = Some ''0000''" by (simp add: request_with_def)
  have h2: "''0000'' \<noteq> []" by simp
  have h3: "\<forall>u\<in>set (users (db seeded_system)). u_pin u \<noteq> hash_pin example_config ''0000''"
    by (simp add: seeded_system_def seeded_db_def admin_user_def support_user_def hash_pin_def
          example_config_def)
  have h4: "auth_fault (quiet_env 10) = NoFault" by (simp add: quiet_env_def)
  from failed_auth_effects [OF h1 h2 h3, of "quiet_env 10"] h4
  have "authenticate example_config (request_with (Some ''0000'')) (quiet_env 10) seeded_system =
     (Some (Response 403 ''failure'' ''Invalid PIN'' None),
               seeded_system\<lparr>db := (db seeded_system)\<lparr>audit_log := audit_log (db seeded_system) @
                  [\<lparr>a_event_type = ''failed_auth'', a_user_id = None,
                    a_details = ''Caller ID: '' @
                      (case form_caller_id (request_with (Some ''0000'')) of None \<Rightarrow> ''unknown'' | Some c \<Rightarrow> c),
                    a_ip_address = remote_addr (request_with (Some ''0000'')),
                    a_timestamp = auth_timestamp (quiet_env 10)\<rparr>]\<rparr>\<rparr>)"
    by blast
  then show ?thesis using h1 h3 h4
    by (simp add: list_all_iff request_with_def quiet_env_def seeded_system_def seeded_db_def)
qed

text \<open>
  Claim C7. For every request whose PIN field is missing or empty, the handler answers
  with status 400 and the message \<open>PIN required\<close>, which is not the answer to a failed
  authentication (403, \<open>Invalid PIN\<close>), and leaves the whole state as it is. The answer
  is the same for every digest function and every database failure, the connection
  failing included: neither is reached. Through the route the database is unchanged.
\<close>

theorem missing_pin_rejected:
  "form_pin req = None \<or> form_pin req = Some [] \<Longrightarrow>
   authenticate cfg req e s = (Some (Response 400 ''failure'' ''PIN required'' None), s) \<and>
   fst (authenticate cfg req e s) \<noteq> Some (Response 403 ''failure'' ''Invalid PIN'' None) \<and>
   db (snd (authenticate_route cfg req e s)) = db s"
  by (simp add: authenticate_missing_pin route_db_missing_pin)

theorem missing_pin_rejected_witness:
  "form_pin (request_with None) = None \<and>
   authenticate example_config (request_with None)
     ((quiet_env 10)\<lparr>auth_fault := RaisesAt 0 ''could not connect to server''\<rparr>) seeded_system =
     (Some (Response 400 ''failure'' ''PIN required'' None), seeded_system) \<and>
   form_pin (request_with (Some [])) = Some [] \<and>
   authenticate example_config (request_with (Some [])) (quiet_env 10) seeded_system =
     (Some (Response 400 ''failure'' ''PIN required'' None), seeded_system)"
proof -
  have h1: "form_pin (request_with None) = None" by (simp add: request_with_def)
  have h2: "form_pin (request_with (Some [])) = Some []" by (simp add: request_with_def)
  show ?thesis
    using h1 h2
      missing_pin_rejected [of "request_with None" example_config
        "(quiet_env 10)\<lparr>auth_fault := RaisesAt 0 ''could not connect to server''\<rparr>" seeded_system]
      missing_pin_rejected [of "request_with (Some [])" example_config "quiet_env 10" seeded_system]
    by simp
qed

subsection \<open>Rate-limit slots\<close>

lemma route_record_bounded:
  assumes "length (recorded (ip_request_counter s) ip) \<le> RATE_LIMIT"
  shows "length (recorded (ip_request_counter (snd (authenticate_route cfg req e s))) ip) \<le> RATE_LIMIT"
proof (cases "length (prune (time_time e) (recorded (ip_request_counter s) (remote_addr req))) < RATE_LIMIT")
  case True
  show ?thesis
    using assms True unfolding route_counter_admitted [OF True]
    by (cases "ip = remote_addr req") simp_all
next
  case False
  then have "RATE_LIMIT \<le> length (prune (time_time e) (recorded (ip_request_counter s) (remote_addr req)))"
    by simp
  from rate_limited_rejects [OF this, of "authenticate cfg"] show ?thesis
    using assms unfolding authenticate_route_def
    by (cases "ip = remote_addr req") (simp_all add: prune_def le_trans [OF length_filter_le])
qed

lemma step_record_bounded:
  "length (recorded (ip_request_counter s) ip) \<le> RATE_LIMIT \<Longrightarrow>
   length (recorded (ip_request_counter (step s ev)) ip) \<le> RATE_LIMIT"
  by (cases ev) (simp_all add: route_record_bounded)

lemma run_record_bounded:
  "length (recorded (ip_request_counter s) ip) \<le> RATE_LIMIT \<Longrightarrow>
   length (recorded (ip_request_counter (run s evs)) ip) \<le> RATE_LIMIT"
  by (induction evs arbitrary: s) (simp_all add: step_record_bounded)

lemma admitted_record_changes:
  "prune now ts @ [now] \<noteq> ts"
proof
  assume eq: "prune now ts @ [now] = ts"
  have "length (prune now (prune now ts @ [now])) = Suc (length (prune now ts))"
    by (simp add: prune_def RATE_PERIOD_def)
  then show False using eq by simp
qed

lemma route_admitted_result:
  "length (prune (time_time e) (recorded (ip_request_counter s) (remote_addr req))) < RATE_LIMIT \<Longrightarrow>
   fst (authenticate_route cfg req e s) =
     fst (authenticate cfg req e
       (s\<lparr>ip_request_counter := (ip_request_counter s)(remote_addr req \<mapsto>
          prune (time_time e) (recorded (ip_request_counter s) (remote_addr req)) @ [time_time e])\<rparr>))"
  by (simp add: authenticate_route_def rate_limited_admits)

text \<open>
  Claim C10. A request to the route that the admission check admits has its timestamp
  appended to the record of its address, so the record changes, also when the handler
  then answers 400 (missing or empty PIN) or 403 (no user with that digest). A request
  that the check rejects, in a state reached from an empty \<open>ip_request_counter\<close>, leaves
  the whole state unchanged.
\<close>

theorem attempt_consumes_slot:
  "(length (prune (time_time e) (recorded (ip_request_counter s) (remote_addr req))) < RATE_LIMIT \<longrightarrow>
      ip_request_counter (snd (authenticate_route cfg req e s)) =
        (ip_request_counter s)(remote_addr req \<mapsto>
          prune (time_time e) (recorded (ip_request_counter s) (remote_addr req)) @ [time_time e]) \<and>
      recorded (ip_request_counter (snd (authenticate_route cfg req e s))) (remote_addr req) \<noteq>
        recorded (ip_request_counter s) (remote_addr req) \<and>
      (form_pin req = None \<or> form_pin req = Some [] \<longrightarrow>
         fst (authenticate_route cfg req e s) = Some (Response 400 ''failure'' ''PIN required'' None)) \<and>
      (\<forall>pin. form_pin req = Some pin \<and> pin \<noteq> [] \<and> auth_fault e = NoFault \<and>
          (\<forall>u\<in>set (users (db s)). u_pin u \<noteq> hash_pin cfg pin) \<longrightarrow>
         fst (authenticate_route cfg req e s) = Some (Response 403 ''failure'' ''Invalid PIN'' None))) \<and>
   (ip_request_counter s0 = Map.empty \<and>
    RATE_LIMIT \<le> length (prune (time_time e)
       (recorded (ip_request_counter (run s0 evs)) (remote_addr req))) \<longrightarrow>
      authenticate_route cfg req e (run s0 evs) =
        (Some (Response 429 ''error'' ''Rate limit exceeded'' None), run s0 evs))"
proof (intro conjI impI allI)
  assume adm: "length (prune (time_time e) (recorded (ip_request_counter s) (remote_addr req))) < RATE_LIMIT"
  let ?s' = "s\<lparr>ip_request_counter := (ip_request_counter s)(remote_addr req \<mapsto>
          prune (time_time e) (recorded (ip_request_counter s) (remote_addr req)) @ [time_time e])\<rparr>"
  show c: "ip_request_counter (snd (authenticate_route cfg req e s)) =
        (ip_request_counter s)(remote_addr req \<mapsto>
          prune (time_time e) (recorded (ip_request_counter s) (remote_addr req)) @ [time_time e])"
    by (rule route_counter_admitted [OF adm])
  show "recorded (ip_request_counter (snd (authenticate_route cfg req e s))) (remote_addr req) \<noteq>
        recorded (ip_request_counter s) (remote_addr req)"
    unfolding c by (simp add: admitted_record_changes)
  {
    assume "form_pin req = None \<or> form_pin req = Some []"
    then show "fst (authenticate_route cfg req e s) = Some (Response 400 ''failure'' ''PIN required'' None)"
      unfolding route_admitted_result [OF adm] by (simp add: authenticate_missing_pin)
  }
  {
    fix pin
    assume h: "form_pin req = Some pin \<and> pin \<noteq> [] \<and> auth_fault e = NoFault \<and>
          (\<forall>u\<in>set (users (db s)). u_pin u \<noteq> hash_pin cfg pin)"
    then have "\<forall>u\<in>set (users (db ?s')). u_pin u \<noteq> hash_pin cfg pin" by simp
    from authenticate_no_match_response [of req pin ?s' cfg e, OF _ _ this] h
    show "fst (authenticate_route cfg req e s) = Some (Response 403 ''failure'' ''Invalid PIN'' None)"
      unfolding route_admitted_result [OF adm] by simp
  }
next
  assume h: "ip_request_counter s0 = Map.empty \<and>
    RATE_LIMIT \<le> length (prune (time_time e)
       (recorded (ip_request_counter (run s0 evs)) (remote_addr req)))"
  then have "length (recorded (ip_request_counter s0) (remote_addr req)) \<le> RATE_LIMIT"
    by (simp add: recorded_def)
  then have "length (recorded (ip_request_counter (run s0 evs)) (remote_addr req)) \<le> RATE_LIMIT"
    by (rule run_record_bounded)
  with h show "authenticate_route cfg req e (run s0 evs) =
        (Some (Response 429 ''error'' ''Rate limit exceeded'' None), run s0 evs)"
    unfolding authenticate_route_def by (intro rejected_state_unchanged) simp_all
qed

theorem attempt_consumes_slot_witness:
  "length (prune (time_time (quiet_env 10))
      (recorded (ip_request_counter seeded_system) ''10.0.0.7'')) < RATE_LIMIT \<and>
   remote_addr (request_with None) = ''10.0.0.7'' \<and>
   form_pin (request_with None) = None \<and>
   fst (authenticate_route example_config (request_with None) (quiet_env 10) seeded_system) =
     Some (Response 400 ''failure'' ''PIN required'' None) \<and>
   ip_request_counter (snd (authenticate_route example_config (request_with None) (quiet_env 10)
     seeded_system)) = [''10.0.0.7'' \<mapsto> [10]] \<and>
   form_pin (request_with (Some ''0000'')) = Some ''0000'' \<and>
   list_all (\<lambda>u. u_pin u \<noteq> hash_pin example_config ''0000'') (users (db seeded_system)) \<and>
   fst (authenticate_route example_config (request_with (Some ''0000'')) (quiet_env 10) seeded_system) =
     Some (Response 403 ''failure'' ''Invalid PIN'' None) \<and>
   ip_request_counter (snd (authenticate_route example_config (request_with (Some ''0000''))
     (quiet_env 10) seeded_system)) = [''10.0.0.7'' \<mapsto> [10]] \<and>
   ip_request_counter seeded_system = Map.empty \<and>
   RATE_LIMIT \<le> length (prune (time_time (quiet_env 69))
     (recorded (ip_request_counter
        (run seeded_system (map (\<lambda>p. Authenticate example_config (fst p) (snd p)) five)))
        ''10.0.0.7'')) \<and>
   authenticate_route example_config (request_with (Some ''1234'')) (quiet_env 69)
       (run seeded_system (map (\<lambda>p. Authenticate example_config (fst p) (snd p)) five)) =
     (Some (Response 429 ''error'' ''Rate limit exceeded'' None),
      run seeded_system (map (\<lambda>p. Authenticate example_config (fst p) (snd p)) five))"
proof -
  let ?run = "run seeded_system (map (\<lambda>p. Authenticate example_config (fst p) (snd p)) five)"
  have a1: "remote_addr (request_with None) = ''10.0.0.7''"
   and a2: "remote_addr (request_with (Some ''0000'')) = ''10.0.0.7''"
   and a3: "remote_addr (request_with (Some ''1234'')) = ''10.0.0.7''"
    by (simp_all add: request_with_def)
  have e0: "ip_request_counter seeded_system = Map.empty" by (simp add: seeded_system_def)
  have r0: "recorded (ip_request_counter seeded_system) ''10.0.0.7'' = []"
    by (simp add: e0 recorded_def)
  have adm: "length (prune (time_time (quiet_env 10))
      (recorded (ip_request_counter seeded_system) ''10.0.0.7'')) < RATE_LIMIT"
    by (simp add: r0 prune_def RATE_LIMIT_def)
  have p1: "form_pin (request_with None) = None"
   and p2: "form_pin (request_with (Some ''0000'')) = Some ''0000''"
    by (simp_all add: request_with_def)
  have nf: "auth_fault (quiet_env 10) = NoFault" by (simp add: quiet_env_def)
  have nomatch: "\<forall>u\<in>set (users (db seeded_system)). u_pin u \<noteq> hash_pin example_config ''0000''"
    by (simp add: seeded_system_def seeded_db_def admin_user_def support_user_def hash_pin_def
          example_config_def)
  have new: "(ip_request_counter seeded_system)(''10.0.0.7'' \<mapsto>
          prune (time_time (quiet_env 10)) (recorded (ip_request_counter seeded_system) ''10.0.0.7'') @
          [time_time (quiet_env 10)]) = [''10.0.0.7'' \<mapsto> [10]]"
    by (simp add: e0 recorded_def prune_def quiet_env_def)
  have rec5: "recorded (ip_request_counter ?run) ''10.0.0.7'' = map (\<lambda>p. time_time (snd p)) five"
    using run_fresh_address [of five "''10.0.0.7''" seeded_system example_config]
    by (simp add: r0 five_def request_with_def quiet_env_def RATE_LIMIT_def RATE_PERIOD_def)
  have rej: "RATE_LIMIT \<le> length (prune (time_time (quiet_env 69))
     (recorded (ip_request_counter ?run) ''10.0.0.7''))"
    unfolding rec5
    by (simp add: five_def quiet_env_def prune_def RATE_LIMIT_def RATE_PERIOD_def)
  note t1 = attempt_consumes_slot [where s = seeded_system and req = "request_with None"
      and e = "quiet_env 10" and cfg = example_config and ?s0.0 = seeded_system and evs = "[]",
      unfolded a1, THEN conjunct1, rule_format, OF adm]
  note t2 = attempt_consumes_slot [where s = seeded_system and req = "request_with (Some ''0000'')"
      and e = "quiet_env 10" and cfg = example_config and ?s0.0 = seeded_system and evs = "[]",
      unfolded a2, THEN conjunct1, rule_format, OF adm]
  note t3 = attempt_consumes_slot [where s = seeded_system and req = "request_with (Some ''1234'')"
      and e = "quiet_env 69" and cfg = example_config and ?s0.0 = seeded_system
      and evs = "map (\<lambda>p. Authenticate example_config (fst p) (snd p)) five",
      unfolded a3, THEN conjunct2, rule_format, OF conjI [OF e0 rej]]
  have c1: "fst (authenticate_route example_config (request_with None) (quiet_env 10) seeded_system) =
     Some (Response 400 ''failure'' ''PIN required'' None)"
    using t1 p1 by blast
  have c2: "ip_request_counter (snd (authenticate_route example_config (request_with None) (quiet_env 10)
     seeded_system)) = [''10.0.0.7'' \<mapsto> [10]]"
    using t1 new by simp
  have c3: "fst (authenticate_route example_config (request_with (Some ''0000'')) (quiet_env 10) seeded_system) =
     Some (Response 403 ''failure'' ''Invalid PIN'' None)"
    using t2 p2 nf nomatch by blast
  have c4: "ip_request_counter (snd (authenticate_route example_config (request_with (Some ''0000''))
     (quiet_env 10) seeded_system)) = [''10.0.0.7'' \<mapsto> [10]]"
    using t2 new by simp
  have la: "list_all (\<lambda>u. u_pin u \<noteq> hash_pin example_config ''0000'') (users (db seeded_system))"
    using nomatch by (simp add: list_all_iff)
  show ?thesis
    using adm a1 p1 c1 c2 p2 la c3 c4 e0 rej t3 by blast
qed

subsection \<open>The assignment transaction\<close>

lemma assign_transaction_cases:
  "assign_transaction ph uid dv ip now fault d =
    (case fault of
       NoFault \<Rightarrow> (None, insert_audit ''on_call_update'' (Some uid) (on_call_update_details ph dv) ip now
                   (insert_on_call ph uid dv now (archive_on_call dv now d)))
     | RaisesAt k m \<Rightarrow>
         if k \<le> 4 then (Some m, d)
         else if k = 5 then (Some m, insert_audit ''on_call_update'' (Some uid)
                   (on_call_update_details ph dv) ip now
                   (insert_on_call ph uid dv now (archive_on_call dv now d)))
         else (None, insert_audit ''on_call_update'' (Some uid) (on_call_update_details ph dv) ip now
                   (insert_on_call ph uid dv now (archive_on_call dv now d))))"
  by (cases fault) (auto simp: assign_transaction_def Let_def)

lemma committed_tables:
  "insert_audit ''on_call_update'' (Some uid) (on_call_update_details ph dv) ip now
     (insert_on_call ph uid dv now (archive_on_call dv now d)) =
   d\<lparr>on_call :=
        map (\<lambda>r. if o_end_time r = None \<and> o_division r = dv then r\<lparr>o_end_time := Some now\<rparr> else r)
          (on_call d) @
        [\<lparr>o_phone = ph, o_user_id = Some uid, o_division = dv, o_start_time = now,
          o_end_time = None\<rparr>],
      audit_log := audit_log d @
        [\<lparr>a_event_type = ''on_call_update'', a_user_id = Some uid,
          a_details = ''New on-call: '' @ ph @ '' (division='' @ dv @ '')'',
          a_ip_address = ip, a_timestamp = now\<rparr>]\<rparr>"
  by (simp add: insert_audit_def insert_on_call_def archive_on_call_def on_call_update_details_def)

lemma set_on_call_number_tables:
  "snd (set_on_call_number ph uid dv ip now fault p d) =
     snd (assign_transaction ph uid dv ip now fault d)"
  by (simp add: set_on_call_number_def split: prod.splits option.splits)

lemma set_on_call_number_no_fault:
  "set_on_call_number ph uid dv ip now NoFault p d =
    (push_to_telepo p, insert_audit ''on_call_update'' (Some uid) (on_call_update_details ph dv) ip now
                   (insert_on_call ph uid dv now (archive_on_call dv now d)))"
  by (simp add: set_on_call_number_def assign_transaction_cases)

lemma set_on_call_number_early_fault:
  "k \<le> 4 \<Longrightarrow> set_on_call_number ph uid dv ip now (RaisesAt k m) p d = (Some (TelepoError m), d)"
  by (simp add: set_on_call_number_def assign_transaction_cases)

text \<open>
  Claim C2. The tables after \<^verbatim>\<open>set_on_call_number\<close> are either the tables before it,
  or the tables in which the division's open rows are closed, the new open row is
  inserted and the \<open>on_call_update\<close> audit row is appended: all three effects or none,
  whatever database call fails and whatever the provider does. With no failure all
  three are there; when a call up to the commit raises, none is and the function returns
  the error.
\<close>

theorem assign_is_atomic:
  "(snd (set_on_call_number ph uid dv ip now fault p d) = d \<or>
    snd (set_on_call_number ph uid dv ip now fault p d) =
      d\<lparr>on_call :=
        map (\<lambda>r. if o_end_time r = None \<and> o_division r = dv then r\<lparr>o_end_time := Some now\<rparr> else r)
          (on_call d) @
        [\<lparr>o_phone = ph, o_user_id = Some uid, o_division = dv, o_start_time = now,
          o_end_time = None\<rparr>],
      audit_log := audit_log d @
        [\<lparr>a_event_type = ''on_call_update'', a_user_id = Some uid,
          a_details = ''New on-call: '' @ ph @ '' (division='' @ dv @ '')'',
          a_ip_address = ip, a_timestamp = now\<rparr>]\<rparr>) \<and>
   (fault = NoFault \<longrightarrow>
    snd (set_on_call_number ph uid dv ip now fault p d) =
      d\<lparr>on_call :=
        map (\<lambda>r. if o_end_time r = None \<and> o_division r = dv then r\<lparr>o_end_time := Some now\<rparr> else r)
          (on_call d) @
        [\<lparr>o_phone = ph, o_user_id = Some uid, o_division = dv, o_start_time = now,
          o_end_time = None\<rparr>],
      audit_log := audit_log d @
        [\<lparr>a_event_type = ''on_call_update'', a_user_id = Some uid,
          a_details = ''New on-call: '' @ ph @ '' (division='' @ dv @ '')'',
          a_ip_address = ip, a_timestamp = now\<rparr>]\<rparr>) \<and>
   (\<forall>k m. fault = RaisesAt k m \<and> k \<le> 4 \<longrightarrow>
      set_on_call_number ph uid dv ip now fault p d = (Some (TelepoError m), d))"
proof (intro conjI impI allI)
  show "snd (set_on_call_number ph uid dv ip now fault p d) = d \<or>
    snd (set_on_call_number ph uid dv ip now fault p d) =
      d\<lparr>on_call :=
        map (\<lambda>r. if o_end_time r = None \<and> o_division r = dv then r\<lparr>o_end_time := Some now\<rparr> else r)
          (on_call d) @
        [\<lparr>o_phone = ph, o_user_id = Some uid, o_division = dv, o_start_time = now,
          o_end_time = None\<rparr>],
      audit_log := audit_log d @
        [\<lparr>a_event_type = ''on_call_update'', a_user_id = Some uid,
          a_details = ''New on-call: '' @ ph @ '' (division='' @ dv @ '')'',
          a_ip_address = ip, a_timestamp = now\<rparr>]\<rparr>"
    unfolding set_on_call_number_tables assign_transaction_cases committed_tables [symmetric]
    by (cases fault) simp_all
next
  assume "fault = NoFault"
  then show "snd (set_on_call_number ph uid dv ip now fault p d) =
      d\<lparr>on_call :=
        map (\<lambda>r. if o_end_time r = None \<and> o_division r = dv then r\<lparr>o_end_time := Some now\<rparr> else r)
          (on_call d) @
        [\<lparr>o_phone = ph, o_user_id = Some uid, o_division = dv, o_start_time = now,
          o_end_time = None\<rparr>],
      audit_log := audit_log d @
        [\<lparr>a_event_type = ''on_call_update'', a_user_id = Some uid,
          a_details = ''New on-call: '' @ ph @ '' (division='' @ dv @ '')'',
          a_ip_address = ip, a_timestamp = now\<rparr>]\<rparr>"
    by (simp add: set_on_call_number_no_fault committed_tables)
next
  fix k m
  assume "fault = RaisesAt k m \<and> k \<le> 4"
  then show "set_on_call_number ph uid dv ip now fault p d = (Some (TelepoError m), d)"
    by (simp add: set_on_call_number_early_fault)
qed

theorem assign_is_atomic_witness:
  "set_on_call_number ''+15551234567'' 1 ''retic_water'' ''10.0.0.9'' 20
      (RaisesAt 3 ''server closed the connection unexpectedly'') (Replies 200 ''{}'') on_duty_db =
     (Some (TelepoError ''server closed the connection unexpectedly''), on_duty_db) \<and>
   snd (set_on_call_number ''+15551234567'' 1 ''retic_water'' ''10.0.0.9'' 20 NoFault
      (Replies 200 ''{}'') on_duty_db) =
     seeded_db\<lparr>on_call :=
        [\<lparr>o_phone = ''+15551234567'', o_user_id = Some 1, o_division = ''retic_water'',
          o_start_time = 12, o_end_time = Some 20\<rparr>,
         \<lparr>o_phone = ''+15551234567'', o_user_id = Some 1, o_division = ''retic_water'',
          o_start_time = 20, o_end_time = None\<rparr>],
       audit_log :=
        [\<lparr>a_event_type = ''on_call_update'', a_user_id = Some 1,
          a_details = ''New on-call: +15551234567 (division=retic_water)'',
          a_ip_address = ''10.0.0.9'', a_timestamp = 20\<rparr>]\<rparr>"
proof -
  have h: "RaisesAt 3 ''server closed the connection unexpectedly'' =
           RaisesAt 3 ''server closed the connection unexpectedly'' \<and> (3::nat) \<le> 4"
    by simp
  note a = assign_is_atomic [of "''+15551234567''" 1 "''retic_water''" "''10.0.0.9''" 20
      "RaisesAt 3 ''server closed the connection unexpectedly''" "Replies 200 ''{}''" on_duty_db]
  note b = assign_is_atomic [of "''+15551234567''" 1 "''retic_water''" "''10.0.0.9''" 20
      NoFault "Replies 200 ''{}''" on_duty_db]
  from a h have c1: "set_on_call_number ''+15551234567'' 1 ''retic_water'' ''10.0.0.9'' 20
      (RaisesAt 3 ''server closed the connection unexpectedly'') (Replies 200 ''{}'') on_duty_db =
     (Some (TelepoError ''server closed the connection unexpectedly''), on_duty_db)"
    by blast
  from b show ?thesis
    unfolding c1 by (simp add: on_duty_db_def seeded_db_def)
qed

subsection \<open>Open rows\<close>

lemma open_after_archive:
  "filter (\<lambda>r. o_end_time r = None \<and> o_division r = D)
     (map (\<lambda>r. if o_end_time r = None \<and> o_division r = dv then r\<lparr>o_end_time := Some now\<rparr> else r) xs) =
   (if D = dv then [] else filter (\<lambda>r. o_end_time r = None \<and> o_division r = D) xs)"
  by (induction xs) auto

lemma open_rows_committed:
  "open_rows D (insert_audit ev au details ip now'
      (insert_on_call ph uid dv now (archive_on_call dv now d))) =
   (if D = dv then [\<lparr>o_phone = ph, o_user_id = Some uid, o_division = dv, o_start_time = now,
                     o_end_time = None\<rparr>]
    else open_rows D d)"
  by (simp add: open_rows_def insert_audit_def insert_on_call_def archive_on_call_def
        open_after_archive)

lemma open_rows_on_call_only:
  "on_call d' = on_call d \<Longrightarrow> open_rows D d' = open_rows D d"
  by (simp add: open_rows_def)

lemma assign_transaction_open_rows:
  "one_open D d \<Longrightarrow>
   one_open D (snd (assign_transaction ph uid dv ip now fault d))"
  unfolding assign_transaction_cases one_open_def
  by (cases fault) (simp_all add: open_rows_committed)

lemma set_on_call_number_open_rows:
  "one_open D d \<Longrightarrow>
   one_open D (snd (set_on_call_number ph uid dv ip now fault p d))"
  unfolding set_on_call_number_tables by (rule assign_transaction_open_rows)

lemma auth_no_user_open_rows:
  "one_open D (db (snd (auth_no_user cid ip e s))) = one_open D (db s)"
  unfolding one_open_def
  by (simp add: open_rows_on_call_only [OF auth_no_user_on_call])

lemma auth_user_open_rows:
  assumes "one_open D (db s)"
  shows "one_open D (db (snd (auth_user u cid ip e s)))"
proof -
  let ?w2 = "insert_audit ''successful_auth'' (Some (u_id u)) (caller_details cid) ip (auth_timestamp e)
               (update_last_login (u_id u) (auth_timestamp e) (db s))"
  have "open_rows D ?w2 = open_rows D (db s)"
    by (rule open_rows_on_call_only) (simp add: insert_audit_def update_last_login_def)
  then have w2: "one_open D ?w2 = one_open D (db s)"
    by (simp add: one_open_def)
  have after: "one_open D (snd (set_on_call_number (u_phone u) (u_id u) (u_division u) ip
      (assign_timestamp e) (assign_fault e) (telepo e) ?w2))"
    using assms w2 by (intro set_on_call_number_open_rows) simp
  show ?thesis
    using assms w2 after
    by (auto simp: auth_user_def Let_def split: option.splits prod.splits)
qed

lemma authenticate_open_rows:
  "one_open D (db s) \<Longrightarrow>
   one_open D (db (snd (authenticate cfg req e s)))"
  by (simp add: authenticate_def Let_def auth_no_user_open_rows auth_user_open_rows
        split: option.splits)

lemma rate_limited_preserves:
  assumes "\<And>s. P (db s) \<Longrightarrow> P (db (snd (f req e s)))" and "P (db s)"
  shows "P (db (snd (rate_limited f req e s)))"
  using assms by (simp add: rate_limited_def Let_def)

lemma step_open_rows:
  "one_open D (db s) \<Longrightarrow> one_open D (db (step s ev))"
proof (cases ev)
  case (Authenticate cfg req e)
  assume "one_open D (db s)"
  then show ?thesis
    unfolding Authenticate step.simps authenticate_route_def
    by (intro rate_limited_preserves [where P = "one_open D"])
       (simp_all add: authenticate_open_rows)
next
  case (Assign ph uid dv ip now fault p)
  assume "one_open D (db s)"
  then show ?thesis
    unfolding Assign by (simp add: set_on_call_number_open_rows)
next
  case (Query dv fault)
  assume "one_open D (db s)"
  then show ?thesis unfolding Query by simp
qed

lemma run_open_rows:
  "one_open D (db s) \<Longrightarrow> one_open D (db (run s evs))"
  by (induction evs arbitrary: s) (simp_all add: step_open_rows)

text \<open>
  Claim C1. For every division \<open>D\<close>: if the table \<open>on_call\<close> holds at most one open row
  for \<open>D\<close> (in particular if it is empty), it still does after any sequence of
  authenticate, assign and query operations run one after the other, whatever fails in
  them; \<^verbatim>\<open>set_on_call_number\<close> keeps the bound under every failure, and when no database
  call fails the open rows of its division are exactly the one new row.
\<close>

theorem single_open_row:
  "(length (open_rows D (db s)) \<le> 1 \<longrightarrow> length (open_rows D (db (run s evs))) \<le> 1) \<and>
   (on_call (db s) = [] \<longrightarrow> length (open_rows D (db (run s evs))) \<le> 1) \<and>
   (length (open_rows D d) \<le> 1 \<longrightarrow>
      length (open_rows D (snd (set_on_call_number ph uid dv ip now fault p d))) \<le> 1) \<and>
   open_rows dv (snd (set_on_call_number ph uid dv ip now NoFault p d)) =
     [\<lparr>o_phone = ph, o_user_id = Some uid, o_division = dv, o_start_time = now,
       o_end_time = None\<rparr>]"
proof (intro conjI impI)
  assume "length (open_rows D (db s)) \<le> 1"
  then show "length (open_rows D (db (run s evs))) \<le> 1"
    using run_open_rows [of D s evs] by (simp add: one_open_def)
next
  assume "on_call (db s) = []"
  then have "one_open D (db s)" by (simp add: open_rows_def one_open_def)
  then show "length (open_rows D (db (run s evs))) \<le> 1"
    using run_open_rows [of D s evs] by (simp add: one_open_def)
next
  assume "length (open_rows D d) \<le> 1"
  then show "length (open_rows D (snd (set_on_call_number ph uid dv ip now fault p d))) \<le> 1"
    using set_on_call_number_open_rows [of D d ph uid dv ip now fault p] by (simp add: one_open_def)
next
  show "open_rows dv (snd (set_on_call_number ph uid dv ip now NoFault p d)) =
     [\<lparr>o_phone = ph, o_user_id = Some uid, o_division = dv, o_start_time = now,
       o_end_time = None\<rparr>]"
    by (simp add: set_on_call_number_no_fault open_rows_committed)
qed

theorem single_open_row_witness:
  "length (open_rows ''retic_water'' (db seeded_system)) \<le> 1 \<and>
   on_call (db seeded_system) = [] \<and>
   length (open_rows ''retic_water'' (db (run seeded_system handover))) \<le> 1 \<and>
   length (open_rows ''retic_water'' on_duty_db) \<le> 1 \<and>
   length (open_rows ''retic_water''
     (snd (set_on_call_number ''+15551234567'' 1 ''retic_water'' ''10.0.0.9'' 20
        (RaisesAt 5 ''connection already closed'') Stalls on_duty_db))) \<le> 1"
proof -
  have h1: "on_call (db seeded_system) = []"
    by (simp add: seeded_system_def seeded_db_def)
  have h2: "length (open_rows ''retic_water'' (db seeded_system)) \<le> 1"
    by (simp add: open_rows_def h1)
  have h3: "length (open_rows ''retic_water'' on_duty_db) \<le> 1"
    by (simp add: open_rows_def on_duty_db_def)
  show ?thesis
    using h1 h2 h3
      single_open_row [of "''retic_water''" seeded_system handover on_duty_db "''+15551234567''" 1
        "''retic_water''" "''10.0.0.9''" 20 "RaisesAt 5 ''connection already closed''" Stalls]
    by blast
qed

subsection \<open>The query after an assignment\<close>

lemma latest_in_set: "latest rs = Some m \<Longrightarrow> m \<in> set rs"
  by (induction rs arbitrary: m) (auto split: option.splits if_splits)

lemma latest_same_start:
  "\<forall>r\<in>set rs. v_start_time r = v_start_time r0 \<Longrightarrow> latest (r0 # rs) = Some r0"
  by (cases "latest rs") (auto dest: latest_in_set)

lemma find_filter_Cons:
  "find P xs = Some x \<Longrightarrow> \<exists>rest. filter P xs = x # rest"
  by (induction xs) (auto split: if_splits)

lemma query_after_commit:
  assumes "find (\<lambda>u. u_id u = uid) (users d) = Some u"
      and "users d' = users d"
      and "open_rows dv d' = [\<lparr>o_phone = ph, o_user_id = Some uid, o_division = dv,
                               o_start_time = now, o_end_time = None\<rparr>]"
  shows "get_current_oncall (Some dv) NoFault d' =
     OnCallFound \<lparr>v_phone = ph, v_start_time = now, v_name = u_name u, v_user_id = uid,
                  v_division = dv\<rparr>"
proof -
  have eq: "(\<lambda>u. uid = u_id u) = (\<lambda>u. u_id u = uid)" by auto
  obtain rest where f: "filter (\<lambda>u. u_id u = uid) (users d) = u # rest"
    using find_filter_Cons [OF assms(1)] by blast
  have uid: "u_id u = uid"
    using f by (metis (mono_tags, lifting) filter_eq_ConsD)
  let ?mk = "\<lambda>u. \<lparr>v_phone = ph, v_start_time = now, v_name = u_name u,
                v_user_id = u_id u, v_division = dv\<rparr>"
  have j: "open_rows_joined dv d' = ?mk u # map ?mk rest"
    by (simp add: open_rows_joined_def assms(2,3) eq f)
  have "latest (?mk u # map ?mk rest) = Some (?mk u)"
    by (rule latest_same_start) simp
  then show ?thesis
    by (simp add: get_current_oncall_def j uid)
qed

lemma users_committed:
  "users (insert_audit ev au details ip now'
      (insert_on_call ph uid dv now (archive_on_call dv now d))) = users d"
  by (simp add: insert_audit_def insert_on_call_def archive_on_call_def)

lemma push_to_telepo_outcomes:
  "push_to_telepo (Replies 200 body) = Some (TelepoSuccess body)"
  "code \<noteq> 200 \<Longrightarrow> push_to_telepo (Replies code body) = Some (TelepoError ''API update failed'')"
  "push_to_telepo (RepliesNonJson code err) = Some (TelepoError err)"
  "push_to_telepo (Unreachable err) = Some (TelepoError err)"
  "push_to_telepo Stalls = None"
  by (simp_all add: push_to_telepo_def)

text \<open>
  Claim C4. When the database part of \<^verbatim>\<open>set_on_call_number\<close> succeeds for a user id that
  the table \<open>users\<close> holds, the tables afterwards are the same for every behaviour of
  the provider (a reply, a rejection, a transport failure, no answer at all), the
  provider's outcome shows only in the returned dict, and the query for the division
  then returns the new assignment: the new phone number, the start time of the
  transaction, the user's id and name.
\<close>

theorem gateway_outcome_keeps_ledger:
  assumes "find (\<lambda>u. u_id u = uid) (users d) = Some u"
  shows "snd (set_on_call_number ph uid dv ip now NoFault p d) =
           snd (set_on_call_number ph uid dv ip now NoFault p' d) \<and>
         get_current_oncall (Some dv) NoFault (snd (set_on_call_number ph uid dv ip now NoFault p d)) =
           OnCallFound \<lparr>v_phone = ph, v_start_time = now, v_name = u_name u, v_user_id = uid,
                        v_division = dv\<rparr> \<and>
         fst (set_on_call_number ph uid dv ip now NoFault (Replies 200 body) d) =
           Some (TelepoSuccess body) \<and>
         (code \<noteq> 200 \<longrightarrow> fst (set_on_call_number ph uid dv ip now NoFault (Replies code body) d) =
           Some (TelepoError ''API update failed'')) \<and>
         fst (set_on_call_number ph uid dv ip now NoFault (Unreachable err) d) =
           Some (TelepoError err)"
proof (intro conjI impI)
  show "snd (set_on_call_number ph uid dv ip now NoFault p d) =
           snd (set_on_call_number ph uid dv ip now NoFault p' d)"
    by (simp add: set_on_call_number_no_fault)
  show "get_current_oncall (Some dv) NoFault (snd (set_on_call_number ph uid dv ip now NoFault p d)) =
           OnCallFound \<lparr>v_phone = ph, v_start_time = now, v_name = u_name u, v_user_id = uid,
                        v_division = dv\<rparr>"
    unfolding set_on_call_number_no_fault snd_conv
    by (rule query_after_commit [OF assms]) (simp_all add: users_committed open_rows_committed)
  show "fst (set_on_call_number ph uid dv ip now NoFault (Replies 200 body) d) =
           Some (TelepoSuccess body)"
    by (simp add: set_on_call_number_no_fault push_to_telepo_outcomes)
  show "fst (set_on_call_number ph uid dv ip now NoFault (Unreachable err) d) =
           Some (TelepoError err)"
    by (simp add: set_on_call_number_no_fault push_to_telepo_outcomes)
next
  assume "code \<noteq> 200"
  then show "fst (set_on_call_number ph uid dv ip now NoFault (Replies code body) d) =
           Some (TelepoError ''API update failed'')"
    by (simp add: set_on_call_number_no_fault push_to_telepo_outcomes)
qed

theorem gateway_outcome_keeps_ledger_witness:
  "find (\<lambda>u. u_id u = 1) (users on_duty_db) = Some admin_user \<and>
   get_current_oncall (Some ''retic_water'') NoFault
     (snd (set_on_call_number ''+15550009999'' 1 ''retic_water'' ''10.0.0.9'' 20 NoFault
        (Unreachable ''Connection refused'') on_duty_db)) =
     OnCallFound \<lparr>v_phone = ''+15550009999'', v_start_time = 20, v_name = Some ''Admin User'',
                  v_user_id = 1, v_division = ''retic_water''\<rparr> \<and>
   fst (set_on_call_number ''+15550009999'' 1 ''retic_water'' ''10.0.0.9'' 20 NoFault
        (Replies 503 ''{}'') on_duty_db) = Some (TelepoError ''API update failed'')"
proof -
  have h: "find (\<lambda>u. u_id u = 1) (users on_duty_db) = Some admin_user"
    by (simp add: on_duty_db_def seeded_db_def admin_user_def)
  have n: "(503::nat) \<noteq> 200" by simp
  have nm: "u_name admin_user = Some ''Admin User''" by (simp add: admin_user_def)
  note t = gateway_outcome_keeps_ledger [OF h, of "''+15550009999''" "''retic_water''" "''10.0.0.9''" 20
      "Unreachable ''Connection refused''" Stalls "''{}''" 503 "''Connection refused''"]
  note c2 = t [THEN conjunct2, THEN conjunct1, unfolded nm]
  note c4 = t [THEN conjunct2, THEN conjunct2, THEN conjunct2, THEN conjunct1, rule_format, OF n]
  show ?thesis by (intro conjI h c2 c4)
qed

subsection \<open>A successful authentication\<close>

lemma authenticate_match:
  assumes "form_pin req = Some pin" and "pin \<noteq> []"
      and "find_user_by_pin (hash_pin cfg pin) (db s) = Some u"
      and "auth_fault e = NoFault"
  shows "authenticate cfg req e s =
     auth_user u (case form_caller_id req of None \<Rightarrow> ''unknown'' | Some c \<Rightarrow> c) (remote_addr req) e s"
  using assms by (simp add: authenticate_def Let_def)

lemma auth_user_no_auth_fault:
  assumes "auth_fault e = NoFault"
  shows "auth_user u cid ip e s =
    (case set_on_call_number (u_phone u) (u_id u) (u_division u) ip (assign_timestamp e)
            (assign_fault e) (telepo e)
            (insert_audit ''successful_auth'' (Some (u_id u)) (caller_details cid) ip (auth_timestamp e)
               (update_last_login (u_id u) (auth_timestamp e) (db s))) of
       (None, d') \<Rightarrow> (None, s\<lparr>db := d'\<rparr>)
     | (Some result, d') \<Rightarrow>
         (Some (Response 200 ''success'' (success_message (u_phone u) (u_division u)) (Some result)),
          s\<lparr>db := d'\<rparr>))"
  using assms by (simp add: auth_user_def Let_def)

lemma auth_user_db:
  assumes "auth_fault e = NoFault"
  shows "db (snd (auth_user u cid ip e s)) =
     snd (set_on_call_number (u_phone u) (u_id u) (u_division u) ip (assign_timestamp e)
            (assign_fault e) (telepo e)
            (insert_audit ''successful_auth'' (Some (u_id u)) (caller_details cid) ip (auth_timestamp e)
               (update_last_login (u_id u) (auth_timestamp e) (db s))))"
  unfolding auth_user_no_auth_fault [OF assms]
  by (simp split: prod.splits option.splits)

lemma find_some_by_id:
  "u \<in> set us \<Longrightarrow> \<exists>u'. find (\<lambda>x. u_id x = u_id u) us = Some u'"
  by (cases "find (\<lambda>x. u_id x = u_id u) us") (auto simp: find_None_iff)

lemma find_user_by_pin_in_users:
  "find_user_by_pin h d = Some u \<Longrightarrow> u \<in> set (users d) \<and> u_pin u = h"
  by (auto simp: find_user_by_pin_def find_Some_iff)

lemma unique_digest_lookup:
  assumes "U \<in> set (users d)" and "u_pin U = h"
      and "\<forall>u\<in>set (users d). u_pin u = h \<longrightarrow> u = U"
  shows "find_user_by_pin h d = Some U"
proof (cases "find_user_by_pin h d")
  case None
  then show ?thesis using assms(1,2) by (auto simp: find_user_by_pin_def find_None_iff)
next
  case (Some u)
  then show ?thesis using find_user_by_pin_in_users [OF Some] assms(3) by auto
qed

lemma user_after_login:
  assumes "u \<in> set (users d)"
  shows "\<exists>u'. find (\<lambda>x. u_id x = u_id u)
           (users (insert_audit ev au details ip now (update_last_login (u_id u) now' d))) = Some u'"
proof -
  let ?f = "\<lambda>x. if u_id x = u_id u then x\<lparr>u_last_login := Some now'\<rparr> else x"
  have "u\<lparr>u_last_login := Some now'\<rparr> \<in> set (map ?f (users d))"
    using assms by (force simp: image_iff)
  moreover have "u_id (u\<lparr>u_last_login := Some now'\<rparr>) = u_id u" by simp
  ultimately have "\<exists>u'. find (\<lambda>x. u_id x = u_id u) (map ?f (users d)) = Some u'"
    using find_some_by_id [of "u\<lparr>u_last_login := Some now'\<rparr>" "map ?f (users d)"] by simp
  then show ?thesis
    by (simp add: insert_audit_def update_last_login_def)
qed

lemma handler_takes_over:
  assumes pin: "form_pin req = Some pin" "pin \<noteq> []"
      and found: "find_user_by_pin (hash_pin cfg pin) (db s) = Some U"
      and nf: "auth_fault e = NoFault" "assign_fault e = NoFault"
  shows "\<exists>row. get_current_oncall (Some (u_division U)) NoFault (db (snd (authenticate cfg req e s))) =
           OnCallFound row \<and>
         v_phone row = u_phone U \<and> v_user_id row = u_id U \<and> v_division row = u_division U \<and>
         v_start_time row = assign_timestamp e"
proof -
  let ?cid = "case form_caller_id req of None \<Rightarrow> ''unknown'' | Some c \<Rightarrow> c"
  let ?w2 = "insert_audit ''successful_auth'' (Some (u_id U)) (caller_details ?cid) (remote_addr req)
               (auth_timestamp e) (update_last_login (u_id U) (auth_timestamp e) (db s))"
  have "U \<in> set (users (db s))" using find_user_by_pin_in_users [OF found] by simp
  then obtain u' where u': "find (\<lambda>x. u_id x = u_id U) (users ?w2) = Some u'"
    using user_after_login by blast
  have d: "db (snd (authenticate cfg req e s)) =
      snd (set_on_call_number (u_phone U) (u_id U) (u_division U) (remote_addr req)
            (assign_timestamp e) NoFault (telepo e) ?w2)"
    unfolding authenticate_match [OF pin found nf(1)] auth_user_db [OF nf(1)] nf(2) ..
  have "get_current_oncall (Some (u_division U)) NoFault (db (snd (authenticate cfg req e s))) =
     OnCallFound \<lparr>v_phone = u_phone U, v_start_time = assign_timestamp e, v_name = u_name u',
                  v_user_id = u_id U, v_division = u_division U\<rparr>"
    unfolding d set_on_call_number_no_fault snd_conv
    by (rule query_after_commit [OF u']) (simp_all add: users_committed open_rows_committed)
  then show ?thesis by simp
qed

lemma route_admitted_state:
  "length (prune (time_time e) (recorded (ip_request_counter s) (remote_addr req))) < RATE_LIMIT \<Longrightarrow>
   \<exists>c. authenticate_route cfg req e s = authenticate cfg req e (s\<lparr>ip_request_counter := c\<rparr>)"
  unfolding authenticate_route_def by (auto simp: rate_limited_admits)

text \<open>
  Claim C5, amended. Let \<open>U\<close> be the user that the digest lookup returns for the
  submitted PIN: the first row of \<open>users\<close> whose stored digest equals the PIN's digest
  (any user with that digest when digests are unique, by \<open>unique_digest_lookup\<close>). When
  the request is admitted and no database call fails, the query for \<open>U\<close>'s division after
  the authentication returns a row with \<open>U\<close>'s phone number and id, whose start time is
  the timestamp of the assignment transaction; that is at or after the time of the
  authentication as long as the clock readings of the request do not decrease.
\<close>

theorem correct_pin_takes_over:
  assumes "form_pin req = Some pin" and "pin \<noteq> []"
      and "find_user_by_pin (hash_pin cfg pin) (db s) = Some U"
      and "length (prune (time_time e) (recorded (ip_request_counter s) (remote_addr req))) < RATE_LIMIT"
      and "auth_fault e = NoFault" and "assign_fault e = NoFault"
      and "time_time e \<le> auth_timestamp e" and "auth_timestamp e \<le> assign_timestamp e"
  shows "\<exists>row. get_current_oncall (Some (u_division U)) NoFault
                 (db (snd (authenticate_route cfg req e s))) = OnCallFound row \<and>
               v_phone row = u_phone U \<and> v_user_id row = u_id U \<and>
               v_start_time row = assign_timestamp e \<and>
               time_time e \<le> v_start_time row \<and> auth_timestamp e \<le> v_start_time row"
proof -
  obtain c where r: "authenticate_route cfg req e s = authenticate cfg req e (s\<lparr>ip_request_counter := c\<rparr>)"
    using route_admitted_state [OF assms(4)] by blast
  have found: "find_user_by_pin (hash_pin cfg pin) (db (s\<lparr>ip_request_counter := c\<rparr>)) = Some U"
    using assms(3) by simp
  obtain row where
    "get_current_oncall (Some (u_division U)) NoFault
        (db (snd (authenticate cfg req e (s\<lparr>ip_request_counter := c\<rparr>)))) = OnCallFound row"
    "v_phone row = u_phone U" "v_user_id row = u_id U" "v_start_time row = assign_timestamp e"
    using handler_takes_over [OF assms(1,2) found assms(5,6)] by blast
  then show ?thesis
    using assms(7,8) unfolding r by auto
qed

lemmas eval_defs =
  authenticate_route_def rate_limited_def authenticate_def auth_user_def auth_no_user_def
  set_on_call_number_def assign_transaction_def push_to_telepo_def get_current_oncall_def
  open_rows_joined_def open_rows_def find_user_by_pin_def hash_pin_def
  update_last_login_def insert_audit_def insert_on_call_def archive_on_call_def
  caller_details_def success_message_def on_call_update_details_def
  recorded_def prune_def RATE_LIMIT_def RATE_PERIOD_def Let_def

lemmas example_defs =
  example_config_def seeded_system_def seeded_db_def admin_user_def support_user_def
  request_with_def quiet_env_def

theorem correct_pin_takes_over_witness:
  "form_pin (request_with (Some ''1234'')) = Some ''1234'' \<and>
   find_user_by_pin (hash_pin example_config ''1234'') (db seeded_system) = Some admin_user \<and>
   length (prune (time_time (quiet_env 10))
     (recorded (ip_request_counter seeded_system) (remote_addr (request_with (Some ''1234''))))) < RATE_LIMIT \<and>
   auth_fault (quiet_env 10) = NoFault \<and> assign_fault (quiet_env 10) = NoFault \<and>
   time_time (quiet_env 10) \<le> auth_timestamp (quiet_env 10) \<and>
   auth_timestamp (quiet_env 10) \<le> assign_timestamp (quiet_env 10) \<and>
   (\<exists>row. get_current_oncall (Some ''retic_water'') NoFault
       (db (snd (authenticate_route example_config (request_with (Some ''1234'')) (quiet_env 10)
          seeded_system))) = OnCallFound row \<and>
      v_phone row = ''+15551234567'' \<and> v_start_time row = 12 \<and> time_time (quiet_env 10) \<le> v_start_time row)"
proof -
  have h1: "form_pin (request_with (Some ''1234'')) = Some ''1234''"
    by (simp add: request_with_def)
  have h2: "''1234'' \<noteq> []" by simp
  have h3: "find_user_by_pin (hash_pin example_config ''1234'') (db seeded_system) = Some admin_user"
    by (simp add: find_user_by_pin_def hash_pin_def example_defs)
  have h4: "length (prune (time_time (quiet_env 10))
     (recorded (ip_request_counter seeded_system) (remote_addr (request_with (Some ''1234''))))) < RATE_LIMIT"
    by (simp add: prune_def recorded_def RATE_LIMIT_def example_defs)
  have h5: "auth_fault (quiet_env 10) = NoFault" and h6: "assign_fault (quiet_env 10) = NoFault"
   and h7: "time_time (quiet_env 10) \<le> auth_timestamp (quiet_env 10)"
   and h8: "auth_timestamp (quiet_env 10) \<le> assign_timestamp (quiet_env 10)"
    by (simp_all add: quiet_env_def)
  have v: "u_division admin_user = ''retic_water''" "u_phone admin_user = ''+15551234567''"
          "assign_timestamp (quiet_env 10) = 12"
    by (simp_all add: admin_user_def quiet_env_def)
  from correct_pin_takes_over [OF h1 h2 h3 h4 h5 h6 h7 h8]
  have "\<exists>row. get_current_oncall (Some ''retic_water'') NoFault
       (db (snd (authenticate_route example_config (request_with (Some ''1234'')) (quiet_env 10)
          seeded_system))) = OnCallFound row \<and>
      v_phone row = ''+15551234567'' \<and> v_start_time row = 12 \<and> time_time (quiet_env 10) \<le> v_start_time row"
    unfolding v by blast
  with h1 h3 h4 h5 h6 h7 h8 show ?thesis by blast
qed

text \<open>
  Claim C5 as stated fails for a user whose digest matches but whom the lookup does not
  return: with two users sharing the PIN 1234, the authentication succeeds for the first,
  and the query for the second user's division finds no open row. Equal PINs have equal
  digests under every digest function.
\<close>

theorem shared_pin_counterexample:
  "colleague \<in> set (users (db shared_pin_system)) \<and>
   u_pin colleague = hash_pin example_config ''1234'' \<and>
   u_division colleague = ''surface_water'' \<and>
   fst (authenticate_route example_config (request_with (Some ''1234'')) (quiet_env 10)
          shared_pin_system) =
     Some (Response 200 ''success'' ''On-call number updated to +15551234567 (division: retic_water)''
        (Some (TelepoSuccess ''{}''))) \<and>
   get_current_oncall (Some ''surface_water'') NoFault
     (db (snd (authenticate_route example_config (request_with (Some ''1234'')) (quiet_env 10)
          shared_pin_system))) =
     OnCallNotFound ''No on-call user set for division=surface_water''"
  by (simp add: eval_defs example_defs colleague_def shared_pin_system_def)

subsection \<open>A failed assignment inside \<^verbatim>\<open>authenticate\<close>\<close>

lemma assign_failure_answer:
  assumes "form_pin req = Some pin" and "pin \<noteq> []"
      and "find_user_by_pin (hash_pin cfg pin) (db s) = Some u"
      and "auth_fault e = NoFault" and "assign_fault e = RaisesAt k m" and "k \<le> 4"
  shows "fst (authenticate cfg req e s) =
           Some (Response 200 ''success'' (success_message (u_phone u) (u_division u))
              (Some (TelepoError m)))"
    and "on_call (db (snd (authenticate cfg req e s))) = on_call (db s)"
  unfolding authenticate_match [OF assms(1-4)] auth_user_no_auth_fault [OF assms(4)] assms(5)
    set_on_call_number_early_fault [OF assms(6)]
  by (simp_all add: insert_audit_def update_last_login_def)

text \<open>
  Claim C3 on the code. The first user authenticates with the right PIN and the
  connection of \<^verbatim>\<open>set_on_call_number\<close> cannot be opened: \<^verbatim>\<open>authenticate\<close> answers with
  status 200, \<open>success\<close> and the message that the on-call number was updated, the error
  sits in \<open>telepo_result\<close>, and the ledger holds no open row for the division. By
  \<open>assign_failure_answer\<close> the answer is of this kind for every digest function, every
  stored user and every failure up to the commit.
\<close>

theorem assign_failure_reported_as_success:
  "authenticate example_config (request_with (Some ''1234''))
     ((quiet_env 10)\<lparr>assign_fault := RaisesAt 0 ''could not connect to server''\<rparr>) seeded_system =
    (Some (Response 200 ''success'' ''On-call number updated to +15551234567 (division: retic_water)''
        (Some (TelepoError ''could not connect to server''))),
     seeded_system\<lparr>db := seeded_db\<lparr>users := [admin_user\<lparr>u_last_login := Some 11\<rparr>, support_user],
        audit_log := [\<lparr>a_event_type = ''successful_auth'', a_user_id = Some 1,
                       a_details = ''Caller ID: +15550001111'', a_ip_address = ''10.0.0.7'',
                       a_timestamp = 11\<rparr>]\<rparr>\<rparr>) \<and>
   get_current_oncall (Some ''retic_water'') NoFault
     (db (snd (authenticate example_config (request_with (Some ''1234''))
        ((quiet_env 10)\<lparr>assign_fault := RaisesAt 0 ''could not connect to server''\<rparr>) seeded_system))) =
     OnCallNotFound ''No on-call user set for division=retic_water''"
  by (simp add: eval_defs example_defs)

subsection \<open>A provider that never answers\<close>

text \<open>
  Claim C9 on the code. The push calls \<^verbatim>\<open>requests.post\<close> without a timeout: when the
  provider never answers, \<^verbatim>\<open>set_on_call_number\<close> does not return, and neither does the
  request to \<^verbatim>\<open>/authenticate\<close>; with a timeout of 10 seconds, as in the AGI script's call
  of the route, the same provider would give an exception.
\<close>

theorem telepo_push_has_no_timeout:
  "fst (set_on_call_number ph uid dv ip now NoFault Stalls d) = None \<and>
   requests_post (Some 10) Stalls = Some (Inl ''Read timed out.'') \<and>
   fst (authenticate_route example_config (request_with (Some ''1234''))
          ((quiet_env 10)\<lparr>telepo := Stalls\<rparr>) seeded_system) = None"
  by (simp add: eval_defs example_defs)

end
